theory Spec2Isabelle
  imports Main "HOL-Library.Sublist"
begin

section \<open>JSON values and the Python operations the scripts apply to them\<close>

text \<open>
  Both scripts (\<^verbatim>\<open>Data_Extractor.py\<close>, the read-only variant, and \<^verbatim>\<open>Ingestor.py\<close>, the
  write-back variant) work on what \<^verbatim>\<open>response.json()\<close> returns: Python values built from
  \<^verbatim>\<open>None\<close>, booleans, numbers, strings, lists and dictionaries.  A dictionary is kept as
  the list of its items in insertion order (the keys of a dictionary are distinct);
  numbers are integers, and characters are the 8-bit code points of \<^typ>\<open>char\<close>.
  Every access that can raise in Python returns a value of \<open>pyerr + _\<close> here.
\<close>

datatype json =
    JNull
  | JBool bool
  | JNum int
  | JStr string
  | JArr "json list"
  | JObj "(string \<times> json) list"

datatype pyerr =
    KeyError | IndexError | TypeError | AttributeError | ConnectionError | JSONDecodeError

definition bind_err :: "pyerr + 'a \<Rightarrow> ('a \<Rightarrow> pyerr + 'b) \<Rightarrow> pyerr + 'b" where
  "bind_err m f = (case m of Inl e \<Rightarrow> Inl e | Inr v \<Rightarrow> f v)"

text \<open>Truth value of a Python object, as \<^verbatim>\<open>if x:\<close> and \<^verbatim>\<open>x and y\<close> test it.\<close>

fun truthy :: "json \<Rightarrow> bool" where
  "truthy JNull = False"
| "truthy (JBool b) = b"
| "truthy (JNum n) = (n \<noteq> 0)"
| "truthy (JStr s) = (s \<noteq> [])"
| "truthy (JArr xs) = (xs \<noteq> [])"
| "truthy (JObj kvs) = (kvs \<noteq> [])"

text \<open>\<^verbatim>\<open>x.get(k, d)\<close>: only a dictionary has the method.\<close>

fun dict_get :: "json \<Rightarrow> string \<Rightarrow> json \<Rightarrow> pyerr + json" where
  "dict_get (JObj kvs) k d = Inr (case map_of kvs k of None \<Rightarrow> d | Some v \<Rightarrow> v)"
| "dict_get JNull k d = Inl AttributeError"
| "dict_get (JBool b) k d = Inl AttributeError"
| "dict_get (JNum n) k d = Inl AttributeError"
| "dict_get (JStr s) k d = Inl AttributeError"
| "dict_get (JArr xs) k d = Inl AttributeError"

text \<open>
  \<^verbatim>\<open>xs[i]\<close> on a list or a string: positions \<open>0\<close> to \<open>len - 1\<close>, and \<open>- len\<close> to \<open>- 1\<close>
  for the same elements counted from the end.
\<close>

definition seq_index :: "'a list \<Rightarrow> int \<Rightarrow> pyerr + 'a" where
  "seq_index xs i =
     (if 0 \<le> i \<and> i < int (length xs) then Inr (xs ! nat i)
      else if i < 0 \<and> - int (length xs) \<le> i then Inr (xs ! nat (int (length xs) + i))
      else Inl IndexError)"

text \<open>
  \<^verbatim>\<open>x[k]\<close>.  The keys of a parsed JSON object are strings, so a key that is not a string
  is either unhashable (a list or a dictionary: \<^verbatim>\<open>TypeError\<close>) or simply absent.
\<close>

fun getitem :: "json \<Rightarrow> json \<Rightarrow> pyerr + json" where
  "getitem (JObj kvs) (JStr k) =
     (case map_of kvs k of None \<Rightarrow> Inl KeyError | Some v \<Rightarrow> Inr v)"
| "getitem (JObj kvs) (JArr ks) = Inl TypeError"
| "getitem (JObj kvs) (JObj ks) = Inl TypeError"
| "getitem (JObj kvs) JNull = Inl KeyError"
| "getitem (JObj kvs) (JBool b) = Inl KeyError"
| "getitem (JObj kvs) (JNum n) = Inl KeyError"
| "getitem (JArr xs) (JNum i) = seq_index xs i"
| "getitem (JArr xs) (JBool b) = seq_index xs (if b then 1 else 0)"
| "getitem (JArr xs) JNull = Inl TypeError"
| "getitem (JArr xs) (JStr k) = Inl TypeError"
| "getitem (JArr xs) (JArr ks) = Inl TypeError"
| "getitem (JArr xs) (JObj ks) = Inl TypeError"
| "getitem (JStr s) (JNum i) = bind_err (seq_index s i) (\<lambda>c. Inr (JStr [c]))"
| "getitem (JStr s) (JBool b) =
     bind_err (seq_index s (if b then 1 else 0)) (\<lambda>c. Inr (JStr [c]))"
| "getitem (JStr s) JNull = Inl TypeError"
| "getitem (JStr s) (JStr k) = Inl TypeError"
| "getitem (JStr s) (JArr ks) = Inl TypeError"
| "getitem (JStr s) (JObj ks) = Inl TypeError"
| "getitem JNull k = Inl TypeError"
| "getitem (JBool b) k = Inl TypeError"
| "getitem (JNum n) k = Inl TypeError"

text \<open>The elements a \<^verbatim>\<open>for\<close> loop or a comprehension visits.\<close>

fun py_iter :: "json \<Rightarrow> pyerr + json list" where
  "py_iter (JArr xs) = Inr xs"
| "py_iter (JObj kvs) = Inr (map (\<lambda>kv. JStr (fst kv)) kvs)"
| "py_iter (JStr s) = Inr (map (\<lambda>c. JStr [c]) s)"
| "py_iter JNull = Inl TypeError"
| "py_iter (JBool b) = Inl TypeError"
| "py_iter (JNum n) = Inl TypeError"

text \<open>A list comprehension \<^verbatim>\<open>[f(x) for x in xs]\<close>: left to right, the first raise ends it.\<close>

fun map_err :: "('a \<Rightarrow> pyerr + 'b) \<Rightarrow> 'a list \<Rightarrow> pyerr + 'b list" where
  "map_err f [] = Inr []"
| "map_err f (x # xs) =
     (case f x of
        Inl e \<Rightarrow> Inl e
      | Inr y \<Rightarrow> (case map_err f xs of Inl e \<Rightarrow> Inl e | Inr ys \<Rightarrow> Inr (y # ys)))"

text \<open>\<^verbatim>\<open>''.join(parts)\<close>: every part has to be a string.\<close>

fun str_join :: "json list \<Rightarrow> pyerr + string" where
  "str_join [] = Inr []"
| "str_join (JStr s # ps) =
     (case str_join ps of Inl e \<Rightarrow> Inl e | Inr t \<Rightarrow> Inr (s @ t))"
| "str_join (JNull # ps) = Inl TypeError"
| "str_join (JBool b # ps) = Inl TypeError"
| "str_join (JNum n # ps) = Inl TypeError"
| "str_join (JArr xs # ps) = Inl TypeError"
| "str_join (JObj kvs # ps) = Inl TypeError"

text \<open>
  \<^verbatim>\<open>''.join([part['plain_text'] for part in parts])\<close>, the idiom both scripts use for
  block text, titles and the re-read field.
\<close>

definition plain_text_of :: "json \<Rightarrow> pyerr + string" where
  "plain_text_of parts =
     bind_err (py_iter parts) (\<lambda>ps.
     bind_err (map_err (\<lambda>p. getitem p (JStr ''plain_text'')) ps) str_join)"

section \<open>The identifier pattern\<close>

text \<open>
  \<^verbatim>\<open>org_id_pattern\<close> is
  \<^verbatim>\<open>\b[a-fA-F0-9]{8}-[a-fA-F0-9]{4}-[a-fA-F0-9]{4}-[a-fA-F0-9]{4}-[a-fA-F0-9]{12}\b\<close>:
  36 characters between two word boundaries.  A word character is what \<^verbatim>\<open>\w\<close> matches
  in a Python 3 string pattern: a letter, a digit or the underscore, here for the code
  points below 256.
\<close>

definition is_hex :: "char \<Rightarrow> bool" where
  "is_hex c = (c \<in> set ''0123456789abcdefABCDEF'')"

definition is_word :: "char \<Rightarrow> bool" where
  "is_word c =
     (let n = (of_char c :: nat) in
        (48 \<le> n \<and> n \<le> 57) \<or> (65 \<le> n \<and> n \<le> 90) \<or> n = 95 \<or> (97 \<le> n \<and> n \<le> 122)
      \<or> n \<in> {170, 178, 179, 181, 185, 186, 188, 189, 190}
      \<or> (192 \<le> n \<and> n \<le> 214) \<or> (216 \<le> n \<and> n \<le> 246) \<or> 248 \<le> n)"

datatype atom = Hex | Dash

definition org_id_atoms :: "atom list" where
  "org_id_atoms =
     replicate 8 Hex @ [Dash] @ replicate 4 Hex @ [Dash] @ replicate 4 Hex @ [Dash]
     @ replicate 4 Hex @ [Dash] @ replicate 12 Hex"

fun atom_ok :: "atom \<Rightarrow> char \<Rightarrow> bool" where
  "atom_ok Hex c = is_hex c"
| "atom_ok Dash c = (c = CHR ''-'')"

text \<open>\<^verbatim>\<open>\b\<close> at position \<open>p\<close>: exactly one side of the position is a word character.\<close>

definition word_boundary :: "string \<Rightarrow> nat \<Rightarrow> bool" where
  "word_boundary text p =
     ((0 < p \<and> p \<le> length text \<and> is_word (text ! (p - 1)))
        \<noteq> (p < length text \<and> is_word (text ! p)))"

definition org_id_at :: "string \<Rightarrow> nat \<Rightarrow> bool" where
  "org_id_at text i =
     (word_boundary text i
      \<and> list_all2 atom_ok org_id_atoms (take 36 (drop i text))
      \<and> word_boundary text (i + 36))"

text \<open>
  \<^verbatim>\<open>re.search\<close> scans the start positions from the left and returns the first match;
  \<^verbatim>\<open>re.findall\<close> collects the matches from the left, resuming after the end of each one.
\<close>

definition re_search :: "string \<Rightarrow> string option" where
  "re_search text =
     map_option (\<lambda>i. take 36 (drop i text))
       (find (org_id_at text) [0 ..< Suc (length text)])"

function re_findall_from :: "string \<Rightarrow> nat \<Rightarrow> string list" where
  "re_findall_from text i =
     (if length text < i then []
      else if org_id_at text i then take 36 (drop i text) # re_findall_from text (i + 36)
      else re_findall_from text (Suc i))"
  by pat_completeness auto
termination
  by (relation "measure (\<lambda>(text, i). Suc (length text) - i)") auto

definition re_findall :: "string \<Rightarrow> string list" where
  "re_findall text = re_findall_from text 0"

section \<open>The collaborators: remote service, console, progress bar, output file\<close>

text \<open>
  The remote service is an arbitrary deterministic collaborator: its answer to a call may
  depend on every call made before.  \<^verbatim>\<open>requests\<close> either raises (no response) or returns a
  response with a status code and a body, which \<^verbatim>\<open>response.json()\<close> parses or fails to
  parse.  The database identifier and the headers are fixed for a run and left out.
\<close>

datatype call =
    QueryDatabase "json option"
  | GetBlocks string
  | PatchPage string string
  | GetPage string

datatype http = NoResponse | Response int "json option"

type_synonym remote = "(call \<times> http) list \<Rightarrow> call \<Rightarrow> http"

text \<open>The lines the scripts print; the two variants word some of them differently.\<close>

datatype msg =
    ApiError int
  | UpdateError int
  | VerificationError int
  | Printed json
  | Updated string string
  | VerifyFailed string
  | UpdateFailed string
  | InitialError
  | Written
  | NumberOfCards nat
  | NoCardsWithOrgId
  | NoCardsWithoutProperty

record row =
  Link :: string
  Card_Title :: string
  Org_ID :: string
  Source :: string

text \<open>
  \<open>calls\<close> is the history of requests with their responses, \<open>bar_n\<close> the completed count
  of the \<^verbatim>\<open>tqdm\<close> bar, \<open>csv_file\<close> the rows of the file at the variant's output path
  (\<open>None\<close>: no such file).
\<close>

record world =
  calls :: "(call \<times> http) list"
  console :: "msg list"
  bar_n :: nat
  bar_total :: json
  csv_file :: "row list option"

type_synonym 'a prog = "world \<Rightarrow> (pyerr + 'a) \<times> world"

definition lift :: "pyerr + 'a \<Rightarrow> 'a prog" where
  "lift r = (\<lambda>w. (r, w))"

definition succeed :: "'a \<Rightarrow> 'a prog" where
  "succeed v = lift (Inr v)"

definition raise :: "pyerr \<Rightarrow> 'a prog" where
  "raise e = lift (Inl e)"

definition and_then :: "'a prog \<Rightarrow> ('a \<Rightarrow> 'b prog) \<Rightarrow> 'b prog" where
  "and_then m f = (\<lambda>w. case m w of (Inl e, w') \<Rightarrow> (Inl e, w') | (Inr v, w') \<Rightarrow> f v w')"

definition request :: "remote \<Rightarrow> call \<Rightarrow> http prog" where
  "request env c = (\<lambda>w. let r = env (calls w) c in (Inr r, w\<lparr>calls := calls w @ [(c, r)]\<rparr>))"

definition print :: "msg \<Rightarrow> unit prog" where
  "print m = (\<lambda>w. (Inr (), w\<lparr>console := console w @ [m]\<rparr>))"

definition progress_update :: "unit prog" where
  "progress_update = (\<lambda>w. (Inr (), w\<lparr>bar_n := bar_n w + 1\<rparr>))"

definition response_json :: "json option \<Rightarrow> json prog" where
  "response_json body = (case body of None \<Rightarrow> raise JSONDecodeError | Some j \<Rightarrow> succeed j)"

section \<open>Functions common to both scripts\<close>

text \<open>\<^verbatim>\<open>get_database_items\<close>; the result \<^verbatim>\<open>None\<close> is \<open>JNull\<close>, as a body \<^verbatim>\<open>null\<close> parses to it.\<close>

definition get_database_items :: "remote \<Rightarrow> json \<Rightarrow> json prog" where
  "get_database_items env start_cursor =
     and_then (request env
        (QueryDatabase (if truthy start_cursor then Some start_cursor else None)))
     (\<lambda>response. case response of
        NoResponse \<Rightarrow> raise ConnectionError
      | Response status_code body \<Rightarrow>
          if status_code \<noteq> 200 then
            and_then (print (ApiError status_code)) (\<lambda>_.
            and_then (response_json body) (\<lambda>j.
            and_then (print (Printed j)) (\<lambda>_.
            succeed JNull)))
          else response_json body)"

definition get_page_blocks :: "remote \<Rightarrow> string \<Rightarrow> json prog" where
  "get_page_blocks env page_id =
     and_then (request env (GetBlocks page_id))
     (\<lambda>response. case response of
        NoResponse \<Rightarrow> raise ConnectionError
      | Response status_code body \<Rightarrow>
          if status_code \<noteq> 200 then
            and_then (print (ApiError status_code)) (\<lambda>_.
            and_then (response_json body) (\<lambda>j.
            and_then (print (Printed j)) (\<lambda>_.
            succeed JNull)))
          else response_json body)"

definition recognized_types :: "string list" where
  "recognized_types =
     [''paragraph'', ''heading_1'', ''heading_2'', ''heading_3'', ''bulleted_list_item'',
      ''numbered_list_item'', ''to_do'', ''toggle'', ''callout'', ''quote'']"

text \<open>
  The head of the loop body of \<^verbatim>\<open>extract_org_id_from_blocks\<close>, the same in both scripts:
  the two subscripts, then the test of the type, then the text of a recognized block
  (\<open>None\<close> for a block of another type).
\<close>

definition block_text :: "json \<Rightarrow> pyerr + string option" where
  "block_text block =
     bind_err (getitem block (JStr ''type'')) (\<lambda>block_type.
     bind_err (getitem block block_type) (\<lambda>block_data.
     if block_type \<in> set (map JStr recognized_types) then
       bind_err (dict_get block_data ''rich_text'' (JArr [])) (\<lambda>rich_text.
       bind_err (plain_text_of rich_text) (\<lambda>text. Inr (Some text)))
     else Inr None))"

text \<open>\<^verbatim>\<open>Data_Extractor.extract_org_id_from_blocks\<close>: \<^verbatim>\<open>re.search\<close> and \<^verbatim>\<open>match.group(0)\<close>.\<close>

fun scan_blocks_de :: "json list \<Rightarrow> pyerr + string option" where
  "scan_blocks_de [] = Inr None"
| "scan_blocks_de (block # rest) =
     (case block_text block of
        Inl e \<Rightarrow> Inl e
      | Inr None \<Rightarrow> scan_blocks_de rest
      | Inr (Some text) \<Rightarrow>
          (case re_search text of
             Some m \<Rightarrow> Inr (Some m)
           | None \<Rightarrow> scan_blocks_de rest))"

definition extract_org_id_from_blocks_de :: "json \<Rightarrow> pyerr + string option" where
  "extract_org_id_from_blocks_de blocks =
     bind_err (dict_get blocks ''results'' (JArr [])) (\<lambda>results.
     bind_err (py_iter results) scan_blocks_de)"

text \<open>\<^verbatim>\<open>Ingestor.extract_org_id_from_blocks\<close>: \<^verbatim>\<open>re.findall\<close> and \<^verbatim>\<open>matches[0]\<close>.\<close>

fun scan_blocks_in :: "json list \<Rightarrow> pyerr + string option" where
  "scan_blocks_in [] = Inr None"
| "scan_blocks_in (block # rest) =
     (case block_text block of
        Inl e \<Rightarrow> Inl e
      | Inr None \<Rightarrow> scan_blocks_in rest
      | Inr (Some text) \<Rightarrow>
          (case re_findall text of
             m # ms \<Rightarrow> Inr (Some m)
           | [] \<Rightarrow> scan_blocks_in rest))"

definition extract_org_id_from_blocks_in :: "json \<Rightarrow> pyerr + string option" where
  "extract_org_id_from_blocks_in blocks =
     bind_err (dict_get blocks ''results'' (JArr [])) (\<lambda>results.
     bind_err (py_iter results) scan_blocks_in)"

text \<open>
  \<^verbatim>\<open>orga_id_property and orga_id_property.get('rich_text')\<close>, the test of both
  \<^verbatim>\<open>extract_card_info\<close> and of \<^verbatim>\<open>verify_card_property\<close>.
\<close>

definition target_filled :: "json \<Rightarrow> pyerr + bool" where
  "target_filled orga_id_property =
     (if truthy orga_id_property
      then bind_err (dict_get orga_id_property ''rich_text'' JNull) (\<lambda>r. Inr (truthy r))
      else Inr False)"

text \<open>
  \<^verbatim>\<open>next((prop for prop in properties.values() if prop['type'] == 'title'), None)\<close>: the
  generator stops at the first property of type title and raises where a subscript fails
  before it.
\<close>

fun find_title :: "json list \<Rightarrow> pyerr + json" where
  "find_title [] = Inr JNull"
| "find_title (prop # rest) =
     (case getitem prop (JStr ''type'') of
        Inl e \<Rightarrow> Inl e
      | Inr t \<Rightarrow> if t = JStr ''title'' then Inr prop else find_title rest)"

fun dict_values :: "json \<Rightarrow> pyerr + json list" where
  "dict_values (JObj kvs) = Inr (map snd kvs)"
| "dict_values JNull = Inl AttributeError"
| "dict_values (JBool b) = Inl AttributeError"
| "dict_values (JNum n) = Inl AttributeError"
| "dict_values (JStr s) = Inl AttributeError"
| "dict_values (JArr xs) = Inl AttributeError"

definition card_title :: "json \<Rightarrow> pyerr + string" where
  "card_title properties =
     bind_err (dict_values properties) (\<lambda>props.
     bind_err (find_title props) (\<lambda>title_property.
     if truthy title_property
     then bind_err (getitem title_property (JStr ''title'')) plain_text_of
     else Inr ''Title not found''))"

text \<open>
  \<^verbatim>\<open>x.replace('-', '')\<close> is a method of strings only: on any other value the attribute
  lookup raises.
\<close>

fun str_receiver :: "json \<Rightarrow> pyerr + string" where
  "str_receiver (JStr s) = Inr s"
| "str_receiver JNull = Inl AttributeError"
| "str_receiver (JBool b) = Inl AttributeError"
| "str_receiver (JNum n) = Inl AttributeError"
| "str_receiver (JArr xs) = Inl AttributeError"
| "str_receiver (JObj kvs) = Inl AttributeError"

definition strip_dashes :: "string \<Rightarrow> string" where
  "strip_dashes s = filter (\<lambda>c. c \<noteq> CHR ''-'') s"

definition card_link :: "string \<Rightarrow> string" where
  "card_link page_id = ''https://www.notion.so/'' @ strip_dashes page_id"

definition card_row :: "string \<Rightarrow> string \<Rightarrow> string \<Rightarrow> row" where
  "card_row link title org_id =
     \<lparr>Link = link, Card_Title = title, Org_ID = org_id, Source = ''Corpus''\<rparr>"

text \<open>
  The pagination loop of \<^verbatim>\<open>main\<close> (lines 114 to 124 of \<^verbatim>\<open>Data_Extractor.py\<close>, 176 to 186
  of \<^verbatim>\<open>Ingestor.py\<close>), the same in both scripts but for the per-page function \<open>proc\<close>.
  Nothing bounds the number of pages the service may announce, so the loop takes fuel:
  \<open>None\<close> is a loop that has not ended within it.
\<close>

fun pagination_loop ::
  "(json \<Rightarrow> row list prog) \<Rightarrow> remote \<Rightarrow> nat \<Rightarrow> json \<Rightarrow> row list \<Rightarrow> world
     \<Rightarrow> ((pyerr + row list) \<times> world) option" where
  "pagination_loop proc env 0 start_cursor all_card_info w = None"
| "pagination_loop proc env (Suc fuel) start_cursor all_card_info w =
     (case get_database_items env start_cursor w of
        (Inl e, w1) \<Rightarrow> Some (Inl e, w1)
      | (Inr database_items, w1) \<Rightarrow>
          if database_items = JNull then Some (Inr all_card_info, w1)
          else
            (case proc database_items w1 of
               (Inl e, w2) \<Rightarrow> Some (Inl e, w2)
             | (Inr card_info_list, w2) \<Rightarrow>
                 (case dict_get database_items ''has_more'' JNull of
                    Inl e \<Rightarrow> Some (Inl e, w2)
                  | Inr has_more \<Rightarrow>
                      if \<not> truthy has_more
                      then Some (Inr (all_card_info @ card_info_list), w2)
                      else
                        (case dict_get database_items ''next_cursor'' JNull of
                           Inl e \<Rightarrow> Some (Inl e, w2)
                         | Inr next_cursor \<Rightarrow>
                             pagination_loop proc env fuel next_cursor
                               (all_card_info @ card_info_list) w2))))"

section \<open>The read-only variant: \<^verbatim>\<open>Data_Extractor.py\<close>\<close>

text \<open>One pass of the loop body of \<^verbatim>\<open>extract_card_info\<close>; the rows it appends are returned.\<close>

definition card_step_de :: "remote \<Rightarrow> json \<Rightarrow> row list prog" where
  "card_step_de env item =
     and_then (lift (dict_get item ''properties'' (JObj []))) (\<lambda>properties.
     and_then (lift (dict_get properties ''ORGA ID*'' (JObj []))) (\<lambda>orga_id_property.
     and_then (lift (target_filled orga_id_property)) (\<lambda>filled.
     if filled then succeed []
     else
       and_then (lift (card_title properties)) (\<lambda>title.
       and_then (lift (getitem item (JStr ''id''))) (\<lambda>item_id.
       and_then (lift (str_receiver item_id)) (\<lambda>id_str.
       and_then (get_page_blocks env id_str) (\<lambda>blocks.
       and_then (if truthy blocks then lift (extract_org_id_from_blocks_de blocks)
                 else succeed None) (\<lambda>org_id.
       and_then (progress_update) (\<lambda>_.
       succeed (case org_id of
                  None \<Rightarrow> []
                | Some oid \<Rightarrow>
                    if oid = [] then [] else [card_row (card_link id_str) title oid]))))))))))"

fun card_loop_de :: "remote \<Rightarrow> json list \<Rightarrow> row list \<Rightarrow> row list prog" where
  "card_loop_de env [] card_info_list w = (Inr card_info_list, w)"
| "card_loop_de env (item # items) card_info_list w =
     (case card_step_de env item w of
        (Inl e, w') \<Rightarrow> (Inl e, w')
      | (Inr recs, w') \<Rightarrow> card_loop_de env items (card_info_list @ recs) w')"

definition extract_card_info_de :: "remote \<Rightarrow> json \<Rightarrow> row list prog" where
  "extract_card_info_de env database_items =
     and_then (lift (dict_get database_items ''results'' (JArr []))) (\<lambda>results.
     and_then (lift (py_iter results)) (\<lambda>items.
     card_loop_de env items []))"

definition export_de :: "row list \<Rightarrow> unit prog" where
  "export_de all_card_info =
     (if all_card_info \<noteq> []
      then (\<lambda>w. (Inr (), w\<lparr>csv_file := Some all_card_info, console := console w @ [Written]\<rparr>))
      else print NoCardsWithOrgId)"

text \<open>
  \<^verbatim>\<open>main\<close> up to \<^verbatim>\<open>progress_bar.close()\<close>: the result is \<^verbatim>\<open>all_card_info\<close>, or \<open>None\<close>
  where \<^verbatim>\<open>main\<close> returns after the failed initial request.
\<close>

definition gather_de ::
  "remote \<Rightarrow> nat \<Rightarrow> world \<Rightarrow> ((pyerr + row list option) \<times> world) option" where
  "gather_de env fuel w =
     (case get_database_items env JNull w of
        (Inl e, w1) \<Rightarrow> Some (Inl e, w1)
      | (Inr initial_response, w1) \<Rightarrow>
          if initial_response = JNull
          then Some (Inr None, w1\<lparr>console := console w1 @ [InitialError]\<rparr>)
          else
            (case dict_get initial_response ''total'' (JNum 0) of
               Inl e \<Rightarrow> Some (Inl e, w1)
             | Inr total_cards \<Rightarrow>
                 (case pagination_loop (extract_card_info_de env) env fuel JNull []
                         (w1\<lparr>bar_n := 0, bar_total := total_cards\<rparr>) of
                    None \<Rightarrow> None
                  | Some (Inl e, w2) \<Rightarrow> Some (Inl e, w2)
                  | Some (Inr all_card_info, w2) \<Rightarrow> Some (Inr (Some all_card_info), w2))))"

definition main_de :: "remote \<Rightarrow> nat \<Rightarrow> world \<Rightarrow> ((pyerr + unit) \<times> world) option" where
  "main_de env fuel w =
     (case gather_de env fuel w of
        None \<Rightarrow> None
      | Some (Inl e, w') \<Rightarrow> Some (Inl e, w')
      | Some (Inr None, w') \<Rightarrow> Some (Inr (), w')
      | Some (Inr (Some all_card_info), w') \<Rightarrow> Some (export_de all_card_info w'))"

section \<open>The write-back variant: \<^verbatim>\<open>Ingestor.py\<close>\<close>

definition update_card_property :: "remote \<Rightarrow> string \<Rightarrow> string \<Rightarrow> bool prog" where
  "update_card_property env page_id orga_id =
     and_then (request env (PatchPage page_id orga_id))
     (\<lambda>response. case response of
        NoResponse \<Rightarrow> raise ConnectionError
      | Response status_code body \<Rightarrow>
          if status_code \<noteq> 200 then
            and_then (print (UpdateError status_code)) (\<lambda>_.
            and_then (response_json body) (\<lambda>j.
            and_then (print (Printed j)) (\<lambda>_.
            succeed False)))
          else succeed True)"

text \<open>
  Lines 86 to 92 of \<^verbatim>\<open>verify_card_property\<close>: the comparison of the re-read page with the
  expected identifier.
\<close>

definition field_matches :: "json \<Rightarrow> string \<Rightarrow> pyerr + bool" where
  "field_matches page expected_orga_id =
     bind_err (dict_get page ''properties'' (JObj [])) (\<lambda>properties.
     bind_err (dict_get properties ''ORGA ID*'' (JObj [])) (\<lambda>orga_id_property.
     bind_err (target_filled orga_id_property) (\<lambda>filled.
     if filled then
       bind_err (getitem orga_id_property (JStr ''rich_text'')) (\<lambda>rich_text.
       bind_err (plain_text_of rich_text) (\<lambda>orga_id_text.
       Inr (orga_id_text = expected_orga_id)))
     else Inr False)))"

definition verify_card_property :: "remote \<Rightarrow> string \<Rightarrow> string \<Rightarrow> bool prog" where
  "verify_card_property env page_id expected_orga_id =
     and_then (request env (GetPage page_id))
     (\<lambda>response. case response of
        NoResponse \<Rightarrow> raise ConnectionError
      | Response status_code body \<Rightarrow>
          if status_code \<noteq> 200 then
            and_then (print (VerificationError status_code)) (\<lambda>_.
            and_then (response_json body) (\<lambda>j.
            and_then (print (Printed j)) (\<lambda>_.
            succeed False)))
          else
            and_then (response_json body) (\<lambda>page.
            lift (field_matches page expected_orga_id)))"

text \<open>
  The set read from the export file: \<^verbatim>\<open>str.extract(r'([^/]+)$')\<close> gives, for each Link,
  the longest run of characters other than \<open>/\<close> that ends the string, and NaN (\<open>None\<close>)
  where the string ends with \<open>/\<close> or is empty.
\<close>

definition trailing_segment :: "string \<Rightarrow> string option" where
  "trailing_segment link =
     (let seg = rev (takeWhile (\<lambda>c. c \<noteq> CHR ''/'') (rev link))
      in if seg = [] then None else Some seg)"

definition load_processed_ids :: "row list option \<Rightarrow> string option set" where
  "load_processed_ids existing =
     (case existing of
        None \<Rightarrow> {}
      | Some df_existing \<Rightarrow> set (map (\<lambda>r. trailing_segment (Link r)) df_existing))"

text \<open>\<^verbatim>\<open>page_id in processed_ids\<close>: hashing a list or a dictionary raises.\<close>

fun in_processed :: "json \<Rightarrow> string option set \<Rightarrow> pyerr + bool" where
  "in_processed (JStr s) ids = Inr (Some s \<in> ids)"
| "in_processed (JArr xs) ids = Inl TypeError"
| "in_processed (JObj kvs) ids = Inl TypeError"
| "in_processed JNull ids = Inr False"
| "in_processed (JBool b) ids = Inr False"
| "in_processed (JNum n) ids = Inr False"

text \<open>Lines 125 to 138 of \<^verbatim>\<open>extract_card_info\<close>: the write, the verification, the record.\<close>

definition write_and_verify ::
  "remote \<Rightarrow> string \<Rightarrow> string \<Rightarrow> string \<Rightarrow> row list prog" where
  "write_and_verify env page_id title org_id =
     and_then (update_card_property env page_id org_id) (\<lambda>updated.
     if updated then
       and_then (verify_card_property env page_id org_id) (\<lambda>verified.
       if verified then
         and_then (print (Updated page_id org_id)) (\<lambda>_.
         succeed [card_row (card_link page_id) title org_id])
       else
         and_then (print (VerifyFailed page_id)) (\<lambda>_. succeed []))
     else
       and_then (print (UpdateFailed page_id)) (\<lambda>_. succeed []))"

definition card_step_in :: "remote \<Rightarrow> string option set \<Rightarrow> json \<Rightarrow> row list prog" where
  "card_step_in env processed_ids item =
     and_then (lift (dict_get item ''properties'' (JObj []))) (\<lambda>properties.
     and_then (lift (dict_get properties ''ORGA ID*'' (JObj []))) (\<lambda>orga_id_property.
     and_then (lift (target_filled orga_id_property)) (\<lambda>filled.
     if filled then succeed []
     else
       and_then (lift (getitem item (JStr ''id''))) (\<lambda>page_id.
       and_then (lift (in_processed page_id processed_ids)) (\<lambda>seen.
       if seen then succeed []
       else
         and_then (lift (card_title properties)) (\<lambda>title.
         and_then (lift (str_receiver page_id)) (\<lambda>id_str.
         and_then (get_page_blocks env id_str) (\<lambda>blocks.
         and_then (if truthy blocks then lift (extract_org_id_from_blocks_in blocks)
                   else succeed None) (\<lambda>org_id.
         and_then (case org_id of
                     None \<Rightarrow> succeed []
                   | Some oid \<Rightarrow>
                       if oid = [] then succeed []
                       else write_and_verify env id_str title oid) (\<lambda>recs.
         and_then (progress_update) (\<lambda>_.
         succeed recs)))))))))))"

fun card_loop_in ::
  "remote \<Rightarrow> string option set \<Rightarrow> json list \<Rightarrow> row list \<Rightarrow> row list prog" where
  "card_loop_in env processed_ids [] card_info_list w = (Inr card_info_list, w)"
| "card_loop_in env processed_ids (item # items) card_info_list w =
     (case card_step_in env processed_ids item w of
        (Inl e, w') \<Rightarrow> (Inl e, w')
      | (Inr recs, w') \<Rightarrow> card_loop_in env processed_ids items (card_info_list @ recs) w')"

definition extract_card_info_in ::
  "remote \<Rightarrow> json \<Rightarrow> string option set \<Rightarrow> row list prog" where
  "extract_card_info_in env database_items processed_ids =
     and_then (lift (dict_get database_items ''results'' (JArr []))) (\<lambda>results.
     and_then (lift (py_iter results)) (\<lambda>items.
     card_loop_in env processed_ids items []))"

definition export_in :: "row list \<Rightarrow> unit prog" where
  "export_in all_card_info =
     (if all_card_info \<noteq> []
      then (\<lambda>w. (Inr (), w\<lparr>csv_file := Some all_card_info,
                     console := console w @ [Written, NumberOfCards (length all_card_info)]\<rparr>))
      else print NoCardsWithoutProperty)"

definition gather_in ::
  "remote \<Rightarrow> nat \<Rightarrow> world \<Rightarrow> ((pyerr + row list option) \<times> world) option" where
  "gather_in env fuel w =
     (let processed_ids = load_processed_ids (csv_file w) in
      case get_database_items env JNull w of
        (Inl e, w1) \<Rightarrow> Some (Inl e, w1)
      | (Inr initial_response, w1) \<Rightarrow>
          if initial_response = JNull
          then Some (Inr None, w1\<lparr>console := console w1 @ [InitialError]\<rparr>)
          else
            (case dict_get initial_response ''total'' (JNum 0) of
               Inl e \<Rightarrow> Some (Inl e, w1)
             | Inr total_cards \<Rightarrow>
                 (case pagination_loop
                         (\<lambda>database_items. extract_card_info_in env database_items processed_ids)
                         env fuel JNull [] (w1\<lparr>bar_n := 0, bar_total := total_cards\<rparr>) of
                    None \<Rightarrow> None
                  | Some (Inl e, w2) \<Rightarrow> Some (Inl e, w2)
                  | Some (Inr all_card_info, w2) \<Rightarrow> Some (Inr (Some all_card_info), w2))))"

definition main_in :: "remote \<Rightarrow> nat \<Rightarrow> world \<Rightarrow> ((pyerr + unit) \<times> world) option" where
  "main_in env fuel w =
     (case gather_in env fuel w of
        None \<Rightarrow> None
      | Some (Inl e, w') \<Rightarrow> Some (Inl e, w')
      | Some (Inr None, w') \<Rightarrow> Some (Inr (), w')
      | Some (Inr (Some all_card_info), w') \<Rightarrow> Some (export_in all_card_info w'))"

section \<open>Notions the properties are stated with\<close>

text \<open>The member of a JSON object under a key; any other value has no members.\<close>

fun member_of :: "json \<Rightarrow> string \<Rightarrow> json option" where
  "member_of (JObj kvs) k = map_of kvs k"
| "member_of JNull k = None"
| "member_of (JBool b) k = None"
| "member_of (JNum n) k = None"
| "member_of (JStr s) k = None"
| "member_of (JArr xs) k = None"

text \<open>An entry whose target field \<^verbatim>\<open>ORGA ID*\<close> holds non-empty rich text.\<close>

definition already_set :: "json \<Rightarrow> bool" where
  "already_set item =
     (case member_of item ''properties'' of
        None \<Rightarrow> False
      | Some properties \<Rightarrow>
          (case member_of properties ''ORGA ID*'' of
             None \<Rightarrow> False
           | Some field \<Rightarrow>
               (case member_of field ''rich_text'' of
                  Some (JArr (x # xs)) \<Rightarrow> True
                | _ \<Rightarrow> False)))"

text \<open>
  What a loop body may do to the world: it never touches the output file, and the requests
  it adds to the history are no database queries.
\<close>

fun is_query :: "call \<Rightarrow> bool" where
  "is_query (QueryDatabase c) = True"
| "is_query (GetBlocks p) = False"
| "is_query (PatchPage p v) = False"
| "is_query (GetPage p) = False"

definition entry_effects :: "world \<Rightarrow> world \<Rightarrow> bool" where
  "entry_effects w w' =
     (csv_file w' = csv_file w
      \<and> (\<exists>new. calls w' = calls w @ new \<and> list_all (\<lambda>e. \<not> is_query (fst e)) new))"

definition steady :: "'a prog \<Rightarrow> bool" where
  "steady m = (\<forall>w. entry_effects w (snd (m w)))"

definition keeps_file :: "'a prog \<Rightarrow> bool" where
  "keeps_file m = (\<forall>w. csv_file (snd (m w)) = csv_file w)"

text \<open>
  A Content Block of the data model: a variant tag and, for a rich-text-bearing variant,
  the plain texts of its runs.  \<open>represents j b\<close> says that the JSON value \<open>j\<close> is such
  a block: it has the tag under \<^verbatim>\<open>type\<close>, a member named by the tag and, if the tag is a
  recognized one, the runs as the \<^verbatim>\<open>plain_text\<close> of the elements of that member's
  \<^verbatim>\<open>rich_text\<close> (no \<^verbatim>\<open>rich_text\<close> at all: no runs).  Other members are free.
\<close>

record cblock =
  tag :: string
  runs :: "string list"

definition is_run :: "json \<Rightarrow> string \<Rightarrow> bool" where
  "is_run j r = (member_of j ''plain_text'' = Some (JStr r))"

fun holds_runs :: "json \<Rightarrow> string list \<Rightarrow> bool" where
  "holds_runs (JObj d) rs =
     (case map_of d ''rich_text'' of
        None \<Rightarrow> rs = []
      | Some (JArr parts) \<Rightarrow> list_all2 is_run parts rs
      | Some _ \<Rightarrow> False)"
| "holds_runs JNull rs = False"
| "holds_runs (JBool b) rs = False"
| "holds_runs (JNum n) rs = False"
| "holds_runs (JStr s) rs = False"
| "holds_runs (JArr xs) rs = False"

definition represents :: "json \<Rightarrow> cblock \<Rightarrow> bool" where
  "represents j b =
     (member_of j ''type'' = Some (JStr (tag b))
      \<and> (case member_of j (tag b) of
            None \<Rightarrow> False
          | Some block_data \<Rightarrow> tag b \<in> set recognized_types \<longrightarrow> holds_runs block_data (runs b)))"

definition matching :: "cblock \<Rightarrow> bool" where
  "matching b = (tag b \<in> set recognized_types \<and> (\<exists>i. org_id_at (concat (runs b)) i))"

text \<open>
  A block the scan passes over: reading it raises nothing and yields no match (it is of
  an unrecognized type, or its text has no match).
\<close>

definition passed_over :: "json \<Rightarrow> bool" where
  "passed_over j =
     (case block_text j of
        Inl e \<Rightarrow> False
      | Inr None \<Rightarrow> True
      | Inr (Some t) \<Rightarrow> re_search t = None)"

section \<open>Example data\<close>

definition ex_id :: string where
  "ex_id = ''59833787-2cf9-4fdf-8782-e53db20768a5''"

definition ex_id2 :: string where
  "ex_id2 = ''0c1f5a3e-77aa-4b6e-9d55-3f2a9b8c7d10''"

definition ex_org :: string where
  "ex_org = ''a1b2c3d4-e5f6-7890-abcd-ef1234567890''"

definition ex_run :: "string \<Rightarrow> json" where
  "ex_run s = JObj [(''type'', JStr ''text''), (''plain_text'', JStr s)]"

text \<open>An entry with a title property and the given rich text in its target field.\<close>

definition ex_entry :: "string \<Rightarrow> json list \<Rightarrow> json" where
  "ex_entry page_id rich_text =
     JObj [(''object'', JStr ''page''),
           (''id'', JStr page_id),
           (''properties'',
              JObj [(''Name'', JObj [(''type'', JStr ''title''),
                                     (''title'', JArr [ex_run ''Acme''])]),
                    (''ORGA ID*'', JObj [(''type'', JStr ''rich_text''),
                                         (''rich_text'', JArr rich_text)])])]"

definition ex_paragraph :: "string list \<Rightarrow> json" where
  "ex_paragraph texts =
     JObj [(''object'', JStr ''block''),
           (''type'', JStr ''paragraph''),
           (''paragraph'', JObj [(''rich_text'', JArr (map ex_run texts))])]"

definition ex_blocks :: json where
  "ex_blocks =
     JObj [(''results'', JArr [ex_paragraph [''see ref '', ex_org, '' for details'']])]"

definition ex_page :: "json list \<Rightarrow> bool \<Rightarrow> json" where
  "ex_page items has_more =
     JObj [(''results'', JArr items),
           (''has_more'', JBool has_more),
           (''next_cursor'', if has_more then JStr ''next'' else JNull)]"

text \<open>
  A service with one entry whose target field the listing shows empty: it accepts every
  update, and a re-read page shows the identifier of the example.
\<close>

fun ex_remote :: remote where
  "ex_remote hist (QueryDatabase c) = Response 200 (Some (ex_page [ex_entry ex_id []] False))"
| "ex_remote hist (GetBlocks p) = Response 200 (Some ex_blocks)"
| "ex_remote hist (PatchPage p v) = Response 200 (Some (ex_entry p [ex_run v]))"
| "ex_remote hist (GetPage p) = Response 200 (Some (ex_entry p [ex_run ex_org]))"

definition ex_world :: world where
  "ex_world = \<lparr>calls = [], console = [], bar_n = 0, bar_total = JNull, csv_file = None\<rparr>"

text \<open>A service whose only entry already has its target field set.\<close>
fun ex_remote_set :: remote where
  "ex_remote_set hist (QueryDatabase c) =
     Response 200 (Some (ex_page [ex_entry ex_id [ex_run ex_org]] False))"
| "ex_remote_set hist (GetBlocks p) = Response 200 (Some ex_blocks)"
| "ex_remote_set hist (PatchPage p v) = Response 200 (Some (ex_entry p [ex_run v]))"
| "ex_remote_set hist (GetPage p) = Response 200 (Some (ex_entry p [ex_run ex_org]))"

definition ex_old_row :: row where
  "ex_old_row = card_row (card_link ex_id2) ''Older card'' ex_org"

text \<open>A service that accepts the update but shows another value when the page is re-read.\<close>

fun ex_remote_stale :: remote where
  "ex_remote_stale hist (QueryDatabase c) =
     Response 200 (Some (ex_page [ex_entry ex_id []] False))"
| "ex_remote_stale hist (GetBlocks p) = Response 200 (Some ex_blocks)"
| "ex_remote_stale hist (PatchPage p v) = Response 200 (Some (ex_entry p [ex_run v]))"
| "ex_remote_stale hist (GetPage p) = Response 200 (Some (ex_entry p [ex_run ''stale'']))"

text \<open>A service that refuses the update.\<close>

fun ex_remote_reject :: remote where
  "ex_remote_reject hist (QueryDatabase c) =
     Response 200 (Some (ex_page [ex_entry ex_id []] False))"
| "ex_remote_reject hist (GetBlocks p) = Response 200 (Some ex_blocks)"
| "ex_remote_reject hist (PatchPage p v) =
     Response 400 (Some (JObj [(''object'', JStr ''error'')]))"
| "ex_remote_reject hist (GetPage p) = Response 200 (Some (ex_entry p []))"

definition ex_properties :: json where
  "ex_properties =
     JObj [(''Name'', JObj [(''type'', JStr ''title''), (''title'', JArr [ex_run ''Acme''])]),
           (''ORGA ID*'', JObj [(''type'', JStr ''rich_text''), (''rich_text'', JArr [])])]"

definition ex_field :: json where
  "ex_field = JObj [(''type'', JStr ''rich_text''), (''rich_text'', JArr [])]"

definition ex_after_blocks :: world where
  "ex_after_blocks = snd (get_page_blocks ex_remote ex_id ex_world)"

definition ex_cblocks :: "cblock list" where
  "ex_cblocks =
     [\<lparr>tag = ''image'', runs = []\<rparr>,
      \<lparr>tag = ''heading_1'', runs = [''Organisation'']\<rparr>,
      \<lparr>tag = ''paragraph'', runs = [''see ref '', ex_org, '' for details'']\<rparr>,
      \<lparr>tag = ''quote'', runs = [ex_id]\<rparr>]"

definition ex_block_list :: "json list" where
  "ex_block_list =
     [JObj [(''object'', JStr ''block''), (''type'', JStr ''image''),
            (''image'', JObj [(''caption'', JArr [ex_run ex_id2])])],
      JObj [(''object'', JStr ''block''), (''type'', JStr ''heading_1''),
            (''heading_1'', JObj [(''rich_text'', JArr [ex_run ''Organisation''])])],
      ex_paragraph [''see ref '', ex_org, '' for details''],
      JObj [(''object'', JStr ''block''), (''type'', JStr ''quote''),
            (''quote'', JObj [(''rich_text'', JArr [ex_run ex_id])])]]"

definition ex_heading :: json where
  "ex_heading =
     JObj [(''object'', JStr ''block''), (''type'', JStr ''heading_1''),
           (''heading_1'', JObj [(''rich_text'', JArr [ex_run ''Organisation''])])]"

definition ex_response :: "json \<Rightarrow> json" where
  "ex_response block =
     JObj [(''object'', JStr ''list''),
           (''results'', JArr ([ex_heading] @ block # [ex_paragraph [ex_org]]))]"

text \<open>
  A service with a second page that is never delivered: the fetch with a cursor is
  answered by a gateway, with status 502 and a body that is no JSON.
\<close>

fun ex_remote_outage :: remote where
  "ex_remote_outage hist (QueryDatabase None) =
     Response 200 (Some (ex_page [ex_entry ex_id []] True))"
| "ex_remote_outage hist (QueryDatabase (Some c)) = Response 502 None"
| "ex_remote_outage hist (GetBlocks p) = Response 200 (Some ex_blocks)"
| "ex_remote_outage hist (PatchPage p v) = Response 200 (Some (ex_entry p [ex_run v]))"
| "ex_remote_outage hist (GetPage p) = Response 200 (Some (ex_entry p [ex_run ex_org]))"

text \<open>The same, the failed fetch being answered with status 500 and a JSON body.\<close>

fun ex_remote_cut :: remote where
  "ex_remote_cut hist (QueryDatabase None) =
     Response 200 (Some (ex_page [ex_entry ex_id []] True))"
| "ex_remote_cut hist (QueryDatabase (Some c)) =
     Response 500 (Some (JObj [(''object'', JStr ''error'')]))"
| "ex_remote_cut hist (GetBlocks p) = Response 200 (Some ex_blocks)"
| "ex_remote_cut hist (PatchPage p v) = Response 200 (Some (ex_entry p [ex_run v]))"
| "ex_remote_cut hist (GetPage p) = Response 200 (Some (ex_entry p [ex_run ex_org]))"

definition ex_row :: row where
  "ex_row = card_row (card_link ex_id) ''Acme'' ex_org"

section \<open>Properties\<close>

subsection \<open>The program monad\<close>

lemma lift_apply: "lift r w = (r, w)"
  by (simp add: lift_def)

lemma succeed_apply: "succeed v w = (Inr v, w)"
  by (simp add: succeed_def lift_def)

lemma raise_apply: "raise e w = (Inl e, w)"
  by (simp add: raise_def lift_def)

lemma and_then_lift_Inr: "and_then (lift (Inr v)) f = f v"
  by (simp add: and_then_def lift_def)

lemma and_then_lift_Inl: "and_then (lift (Inl e)) f = lift (Inl e)"
  by (simp add: and_then_def lift_def)

lemma and_then_succeed: "and_then (succeed v) f = f v"
  by (simp add: succeed_def and_then_lift_Inr)

lemma and_then_raise: "and_then (raise e) f = raise e"
  by (simp add: raise_def and_then_lift_Inl)

subsection \<open>Entries whose target field is already set\<close>

lemma member_of_dict_get: "member_of j k = Some v \<Longrightarrow> dict_get j k d = Inr v"
  by (cases j) simp_all

lemma member_of_truthy: "member_of j k = Some v \<Longrightarrow> truthy j"
  by (cases j) auto

lemma already_set_filled:
  assumes "already_set item"
  shows "\<exists>properties fld.
           dict_get item ''properties'' (JObj []) = Inr properties
         \<and> dict_get properties ''ORGA ID*'' (JObj []) = Inr fld
         \<and> target_filled fld = Inr True"
proof -
  from assms obtain properties where p: "member_of item ''properties'' = Some properties"
    by (auto simp: already_set_def split: option.splits)
  with assms obtain fld where f: "member_of properties ''ORGA ID*'' = Some fld"
    by (auto simp: already_set_def split: option.splits)
  with assms p obtain x xs where r: "member_of fld ''rich_text'' = Some (JArr (x # xs))"
    by (auto simp: already_set_def split: option.splits json.splits list.splits)
  have "target_filled fld = Inr True"
    using member_of_truthy[OF r] member_of_dict_get[OF r]
    by (simp add: target_filled_def bind_err_def)
  with member_of_dict_get[OF p] member_of_dict_get[OF f] show ?thesis by blast
qed

lemma step_de_skip:
  assumes "already_set item"
  shows "card_step_de env item w = (Inr [], w)"
proof -
  from already_set_filled[OF assms] obtain properties fld where
    "dict_get item ''properties'' (JObj []) = Inr properties"
    "dict_get properties ''ORGA ID*'' (JObj []) = Inr fld"
    "target_filled fld = Inr True"
    by blast
  then show ?thesis
    by (simp add: card_step_de_def and_then_lift_Inr succeed_apply)
qed

lemma step_in_skip:
  assumes "already_set item"
  shows "card_step_in env ids item w = (Inr [], w)"
proof -
  from already_set_filled[OF assms] obtain properties fld where
    "dict_get item ''properties'' (JObj []) = Inr properties"
    "dict_get properties ''ORGA ID*'' (JObj []) = Inr fld"
    "target_filled fld = Inr True"
    by blast
  then show ?thesis
    by (simp add: card_step_in_def and_then_lift_Inr succeed_apply)
qed

lemma loop_de_filter:
  "card_loop_de env (filter (\<lambda>i. \<not> already_set i) items) acc w = card_loop_de env items acc w"
  by (induction items arbitrary: acc w) (auto simp: step_de_skip split: prod.splits sum.splits)

lemma loop_in_filter:
  "card_loop_in env ids (filter (\<lambda>i. \<not> already_set i) items) acc w
     = card_loop_in env ids items acc w"
  by (induction items arbitrary: acc w) (auto simp: step_in_skip split: prod.splits sum.splits)

text \<open>
  C5.  In both variants the loop body, run on an entry whose target field \<^verbatim>\<open>ORGA ID*\<close>
  already holds non-empty rich text, appends no Result Record and leaves the world as it
  was: no request is issued for the entry, so no blocks fetch either.  For a whole page,
  the rows and every effect of \<^verbatim>\<open>extract_card_info\<close> are those of the page without such
  entries.
\<close>

theorem already_set_entry_is_skipped:
  "(already_set item \<longrightarrow>
      card_step_de env item w = (Inr [], w) \<and> card_step_in env ids item w = (Inr [], w))
   \<and> card_loop_de env items acc w
        = card_loop_de env (filter (\<lambda>i. \<not> already_set i) items) acc w
   \<and> card_loop_in env ids items acc w
        = card_loop_in env ids (filter (\<lambda>i. \<not> already_set i) items) acc w"
  by (simp add: step_de_skip step_in_skip loop_de_filter loop_in_filter)

theorem already_set_entry_is_skipped_witness:
  "already_set (ex_entry ex_id [ex_run ex_org])
   \<and> card_step_de ex_remote (ex_entry ex_id [ex_run ex_org]) ex_world = (Inr [], ex_world)
   \<and> card_step_in ex_remote {} (ex_entry ex_id [ex_run ex_org]) ex_world = (Inr [], ex_world)
   \<and> calls (snd (card_loop_de ex_remote
                     [ex_entry ex_id2 [ex_run ex_org], ex_entry ex_id []] [] ex_world))
       = [(GetBlocks ex_id, Response 200 (Some ex_blocks))]"
proof -
  have h: "already_set (ex_entry ex_id [ex_run ex_org])"
    by code_simp
  have f: "filter (\<lambda>i. \<not> already_set i) [ex_entry ex_id2 [ex_run ex_org], ex_entry ex_id []]
             = [ex_entry ex_id []]"
    by code_simp
  have c: "calls (snd (card_loop_de ex_remote [ex_entry ex_id []] [] ex_world))
             = [(GetBlocks ex_id, Response 200 (Some ex_blocks))]"
    by code_simp
  from already_set_entry_is_skipped
         [of "ex_entry ex_id [ex_run ex_org]" ex_remote ex_world "{}"
             "[ex_entry ex_id2 [ex_run ex_org], ex_entry ex_id []]" "[]"]
       h f c
  show ?thesis by simp
qed

subsection \<open>What the loop bodies leave alone\<close>

lemma entry_effects_refl: "entry_effects w w"
  by (simp add: entry_effects_def)

lemma entry_effects_trans:
  "entry_effects a b \<Longrightarrow> entry_effects b c \<Longrightarrow> entry_effects a c"
  by (auto simp: entry_effects_def)

lemma steady_lift: "steady (lift r)"
  by (simp add: steady_def lift_def entry_effects_refl)

lemma steady_succeed: "steady (succeed v)"
  by (simp add: succeed_def steady_lift)

lemma steady_raise: "steady (raise e)"
  by (simp add: raise_def steady_lift)

lemma steady_print: "steady (print m)"
  by (simp add: steady_def print_def entry_effects_def)

lemma steady_progress_update: "steady progress_update"
  by (simp add: steady_def progress_update_def entry_effects_def)

lemma steady_request: "\<not> is_query c \<Longrightarrow> steady (request env c)"
  by (simp add: steady_def request_def entry_effects_def Let_def)

lemma steady_and_then:
  assumes "steady m" and "\<And>v. steady (f v)"
  shows "steady (and_then m f)"
proof (unfold steady_def, rule allI)
  fix w
  show "entry_effects w (snd (and_then m f w))"
  proof (cases "m w")
    case (Pair r w1)
    from assms(1) Pair have a: "entry_effects w w1"
      by (auto simp: steady_def dest: spec[of _ w])
    show ?thesis
    proof (cases r)
      case (Inl e)
      with Pair a show ?thesis by (simp add: and_then_def)
    next
      case (Inr v)
      from assms(2)[of v] have "entry_effects w1 (snd (f v w1))"
        by (simp add: steady_def)
      with a Pair Inr show ?thesis
        by (auto simp: and_then_def intro: entry_effects_trans)
    qed
  qed
qed

lemma steady_if: "steady a \<Longrightarrow> steady b \<Longrightarrow> steady (if c then a else b)"
  by simp

lemma steady_response_json: "steady (response_json body)"
  by (cases body) (simp_all add: response_json_def steady_raise steady_succeed)

lemmas steady_intros =
  steady_and_then steady_lift steady_succeed steady_raise steady_print
  steady_progress_update steady_if steady_response_json

lemma steady_get_page_blocks: "steady (get_page_blocks env p)"
  unfolding get_page_blocks_def
  by (intro steady_and_then steady_request) (auto split: http.splits intro!: steady_intros)

lemma steady_update_card_property: "steady (update_card_property env p v)"
  unfolding update_card_property_def
  by (intro steady_and_then steady_request) (auto split: http.splits intro!: steady_intros)

lemma steady_verify_card_property: "steady (verify_card_property env p v)"
  unfolding verify_card_property_def
  by (intro steady_and_then steady_request) (auto split: http.splits intro!: steady_intros)

lemma steady_write_and_verify: "steady (write_and_verify env p t v)"
  unfolding write_and_verify_def
  by (intro steady_intros steady_update_card_property steady_verify_card_property)

lemma steady_card_step_de: "steady (card_step_de env item)"
  unfolding card_step_de_def
  by (intro steady_intros steady_get_page_blocks)

lemma steady_card_step_in: "steady (card_step_in env ids item)"
  unfolding card_step_in_def
  by (intro steady_intros steady_get_page_blocks)
     (auto split: option.splits intro!: steady_intros steady_write_and_verify)

lemma card_loop_de_effects: "entry_effects w (snd (card_loop_de env items acc w))"
proof (induction items arbitrary: acc w)
  case Nil
  show ?case by (simp add: entry_effects_refl)
next
  case (Cons item items)
  obtain r w1 where s: "card_step_de env item w = (r, w1)" by (cases "card_step_de env item w")
  have a: "entry_effects w w1"
    using steady_card_step_de[of env item] s by (auto simp: steady_def dest: spec[of _ w])
  show ?case
  proof (cases r)
    case (Inl e)
    with s a show ?thesis by simp
  next
    case (Inr recs)
    with s a Cons.IH[where acc="acc @ recs" and w=w1] show ?thesis
      by (auto intro: entry_effects_trans)
  qed
qed

lemma card_loop_in_effects: "entry_effects w (snd (card_loop_in env ids items acc w))"
proof (induction items arbitrary: acc w)
  case Nil
  show ?case by (simp add: entry_effects_refl)
next
  case (Cons item items)
  obtain r w1 where s: "card_step_in env ids item w = (r, w1)"
    by (cases "card_step_in env ids item w")
  have a: "entry_effects w w1"
    using steady_card_step_in[of env ids item] s by (auto simp: steady_def dest: spec[of _ w])
  show ?case
  proof (cases r)
    case (Inl e)
    with s a show ?thesis by simp
  next
    case (Inr recs)
    with s a Cons.IH[where acc="acc @ recs" and w=w1] show ?thesis
      by (auto intro: entry_effects_trans)
  qed
qed

lemma steady_extract_card_info_de: "steady (extract_card_info_de env database_items)"
  unfolding extract_card_info_de_def
  by (intro steady_intros) (simp add: steady_def card_loop_de_effects)

lemma steady_extract_card_info_in: "steady (extract_card_info_in env database_items ids)"
  unfolding extract_card_info_in_def
  by (intro steady_intros) (simp add: steady_def card_loop_in_effects)

lemma steady_keeps_file: "steady m \<Longrightarrow> keeps_file m"
  by (simp add: steady_def keeps_file_def entry_effects_def)

lemma get_database_items_file: "csv_file (snd (get_database_items env c w)) = csv_file w"
  by (auto simp: get_database_items_def and_then_def request_def Let_def print_def
        response_json_def raise_apply succeed_apply split: http.splits option.splits)

lemma pagination_loop_file:
  assumes "keeps_file_proc": "\<And>d. keeps_file (proc d)"
  shows "pagination_loop proc env fuel c acc w = Some (r, w') \<Longrightarrow> csv_file w' = csv_file w"
proof (induction fuel arbitrary: c acc w)
  case 0
  then show ?case by simp
next
  case (Suc fuel)
  obtain r1 w1 where g: "get_database_items env c w = (r1, w1)"
    by (cases "get_database_items env c w")
  then have f1: "csv_file w1 = csv_file w"
    using get_database_items_file[of env c w] by simp
  show ?case
  proof (cases r1)
    case (Inl e)
    with Suc.prems g f1 show ?thesis by simp
  next
    case (Inr d)
    show ?thesis
    proof (cases "d = JNull")
      case True
      with Suc.prems g f1 Inr show ?thesis by simp
    next
      case False
      obtain r2 w2 where p: "proc d w1 = (r2, w2)" by (cases "proc d w1")
      then have f2: "csv_file w2 = csv_file w1"
        using assms[of d] by (auto simp: keeps_file_def dest: spec[of _ w1])
      from Suc.prems g Inr False p f1 f2 Suc.IH show ?thesis
        by (auto split: sum.splits if_splits)
    qed
  qed
qed

lemma gather_de_file:
  "gather_de env fuel w = Some (r, w') \<Longrightarrow> csv_file w' = csv_file w"
proof -
  assume a: "gather_de env fuel w = Some (r, w')"
  obtain r1 w1 where g: "get_database_items env JNull w = (r1, w1)"
    by (cases "get_database_items env JNull w")
  then have f1: "csv_file w1 = csv_file w"
    using get_database_items_file[of env JNull w] by simp
  have k: "\<And>d. keeps_file (extract_card_info_de env d)"
    by (rule steady_keeps_file[OF steady_extract_card_info_de])
  from a g f1 pagination_loop_file[of "extract_card_info_de env", OF k] show ?thesis
    by (fastforce simp: gather_de_def split: sum.splits if_splits option.splits prod.splits)
qed

lemma gather_in_file:
  "gather_in env fuel w = Some (r, w') \<Longrightarrow> csv_file w' = csv_file w"
proof -
  assume a: "gather_in env fuel w = Some (r, w')"
  obtain r1 w1 where g: "get_database_items env JNull w = (r1, w1)"
    by (cases "get_database_items env JNull w")
  then have f1: "csv_file w1 = csv_file w"
    using get_database_items_file[of env JNull w] by simp
  have k: "\<And>d. keeps_file (extract_card_info_in env d (load_processed_ids (csv_file w)))"
    by (rule steady_keeps_file[OF steady_extract_card_info_in])
  from a g f1
    pagination_loop_file[of "\<lambda>d. extract_card_info_in env d (load_processed_ids (csv_file w))",
                         OF k]
  show ?thesis
    by (fastforce simp: gather_in_def Let_def
          split: sum.splits if_splits option.splits prod.splits)
qed

subsection \<open>The export step\<close>

text \<open>
  C8.  In both variants, a run whose accumulated Result Record sequence is empty ends with
  the message of its \<^verbatim>\<open>else\<close> branch and with the output file as it was before the run;
  and whenever a run has changed the file, the file holds at least one row, so a file of
  the header alone is never written.
\<close>

theorem empty_result_writes_no_file:
  "(gather_de env fuel w = Some (Inr (Some []), w1) \<longrightarrow>
      main_de env fuel w = Some (Inr (), w1\<lparr>console := console w1 @ [NoCardsWithOrgId]\<rparr>)
      \<and> csv_file w1 = csv_file w)
   \<and> (gather_in env fuel w = Some (Inr (Some []), w1) \<longrightarrow>
      main_in env fuel w = Some (Inr (), w1\<lparr>console := console w1 @ [NoCardsWithoutProperty]\<rparr>)
      \<and> csv_file w1 = csv_file w)
   \<and> (main_de env fuel w = Some (r, w') \<longrightarrow>
        csv_file w' = csv_file w \<or> (\<exists>rows. rows \<noteq> [] \<and> csv_file w' = Some rows))
   \<and> (main_in env fuel w = Some (r, w') \<longrightarrow>
        csv_file w' = csv_file w \<or> (\<exists>rows. rows \<noteq> [] \<and> csv_file w' = Some rows))"
proof (intro conjI impI)
  assume "gather_de env fuel w = Some (Inr (Some []), w1)"
  then show "main_de env fuel w = Some (Inr (), w1\<lparr>console := console w1 @ [NoCardsWithOrgId]\<rparr>)"
    and "csv_file w1 = csv_file w"
    by (simp_all add: main_de_def export_de_def print_def gather_de_file)
next
  assume "gather_in env fuel w = Some (Inr (Some []), w1)"
  then show
    "main_in env fuel w = Some (Inr (), w1\<lparr>console := console w1 @ [NoCardsWithoutProperty]\<rparr>)"
    and "csv_file w1 = csv_file w"
    by (simp_all add: main_in_def export_in_def print_def gather_in_file)
next
  assume "main_de env fuel w = Some (r, w')"
  then show "csv_file w' = csv_file w \<or> (\<exists>rows. rows \<noteq> [] \<and> csv_file w' = Some rows)"
    by (auto simp: main_de_def export_de_def print_def dest: gather_de_file
             split: option.splits sum.splits prod.splits if_splits)
next
  assume "main_in env fuel w = Some (r, w')"
  then show "csv_file w' = csv_file w \<or> (\<exists>rows. rows \<noteq> [] \<and> csv_file w' = Some rows)"
    by (auto simp: main_in_def export_in_def print_def dest: gather_in_file
             split: option.splits sum.splits prod.splits if_splits)
qed

theorem empty_result_writes_no_file_witness:
  "gather_de ex_remote_set 2 ex_world
     = Some (Inr (Some []), snd (the (gather_de ex_remote_set 2 ex_world)))
   \<and> gather_in ex_remote_set 2 ex_world
     = Some (Inr (Some []), snd (the (gather_in ex_remote_set 2 ex_world)))
   \<and> map_option (\<lambda>p. (fst p, csv_file (snd p), console (snd p))) (main_de ex_remote_set 2 ex_world)
       = Some (Inr (), None, [NoCardsWithOrgId])
   \<and> map_option (\<lambda>p. (fst p, csv_file (snd p), console (snd p))) (main_in ex_remote_set 2 ex_world)
       = Some (Inr (), None, [NoCardsWithoutProperty])"
proof -
  have d: "gather_de ex_remote_set 2 ex_world
             = Some (Inr (Some []), snd (the (gather_de ex_remote_set 2 ex_world)))"
    by code_simp
  have i: "gather_in ex_remote_set 2 ex_world
             = Some (Inr (Some []), snd (the (gather_in ex_remote_set 2 ex_world)))"
    by code_simp
  have cd: "console (snd (the (gather_de ex_remote_set 2 ex_world))) = []"
    and ci: "console (snd (the (gather_in ex_remote_set 2 ex_world))) = []"
    and fd: "csv_file ex_world = None"
    by code_simp+
  from empty_result_writes_no_file
         [of ex_remote_set 2 ex_world "snd (the (gather_de ex_remote_set 2 ex_world))"]
       empty_result_writes_no_file
         [of ex_remote_set 2 ex_world "snd (the (gather_in ex_remote_set 2 ex_world))"]
       d i cd ci fd
  show ?thesis by simp
qed

text \<open>
  C9.  In the write-back variant the export writes exactly the rows accumulated in this run
  to the output path, whatever the file held before; that earlier content, still in place
  when the pagination ends, has only served to seed the processed identifiers.
\<close>

theorem export_overwrites_previous_file:
  assumes "gather_in env fuel w = Some (Inr (Some rows), w1)" and "rows \<noteq> []"
  shows "main_in env fuel w
           = Some (Inr (), w1\<lparr>csv_file := Some rows,
                               console := console w1 @ [Written, NumberOfCards (length rows)]\<rparr>)
         \<and> csv_file w1 = csv_file w"
  using assms by (simp add: main_in_def export_in_def gather_in_file)

theorem export_overwrites_previous_file_witness:
  "gather_in ex_remote 2 (ex_world\<lparr>csv_file := Some [ex_old_row]\<rparr>)
     = Some (Inr (Some [card_row (card_link ex_id) ''Acme'' ex_org]),
             snd (the (gather_in ex_remote 2 (ex_world\<lparr>csv_file := Some [ex_old_row]\<rparr>))))
   \<and> map_option (\<lambda>p. csv_file (snd p)) (main_in ex_remote 2 (ex_world\<lparr>csv_file := Some [ex_old_row]\<rparr>))
       = Some (Some [card_row (card_link ex_id) ''Acme'' ex_org])
   \<and> ex_old_row \<noteq> card_row (card_link ex_id) ''Acme'' ex_org"
proof -
  have g: "gather_in ex_remote 2 (ex_world\<lparr>csv_file := Some [ex_old_row]\<rparr>)
     = Some (Inr (Some [card_row (card_link ex_id) ''Acme'' ex_org]),
             snd (the (gather_in ex_remote 2 (ex_world\<lparr>csv_file := Some [ex_old_row]\<rparr>))))"
    by code_simp
  have n: "ex_old_row \<noteq> card_row (card_link ex_id) ''Acme'' ex_org"
    by code_simp
  from export_overwrites_previous_file[OF g] g n show ?thesis by simp
qed

subsection \<open>Write, verify, record\<close>

lemma bind_err_Inr:
  "bind_err m f = Inr v \<Longrightarrow> \<exists>x. m = Inr x \<and> f x = Inr v"
  by (cases m) (simp_all add: bind_err_def)

lemma field_matches_True:
  assumes "field_matches page expected = Inr True"
  shows "\<exists>properties fld rich.
           dict_get page ''properties'' (JObj []) = Inr properties
         \<and> dict_get properties ''ORGA ID*'' (JObj []) = Inr fld
         \<and> getitem fld (JStr ''rich_text'') = Inr rich
         \<and> plain_text_of rich = Inr expected"
proof -
  from assms obtain properties where
    p: "dict_get page ''properties'' (JObj []) = Inr properties" and
    r1: "bind_err (dict_get properties ''ORGA ID*'' (JObj [])) (\<lambda>orga_id_property.
           bind_err (target_filled orga_id_property) (\<lambda>filled.
             if filled then
               bind_err (getitem orga_id_property (JStr ''rich_text'')) (\<lambda>rich_text.
               bind_err (plain_text_of rich_text) (\<lambda>orga_id_text.
               Inr (orga_id_text = expected)))
             else Inr False)) = Inr True"
    unfolding field_matches_def by (blast dest: bind_err_Inr)
  from r1 obtain fld where
    f: "dict_get properties ''ORGA ID*'' (JObj []) = Inr fld" and
    r2: "bind_err (target_filled fld) (\<lambda>filled.
             if filled then
               bind_err (getitem fld (JStr ''rich_text'')) (\<lambda>rich_text.
               bind_err (plain_text_of rich_text) (\<lambda>orga_id_text.
               Inr (orga_id_text = expected)))
             else Inr False) = Inr True"
    by (blast dest: bind_err_Inr)
  from r2 obtain filled where
    r3: "(if filled then
               bind_err (getitem fld (JStr ''rich_text'')) (\<lambda>rich_text.
               bind_err (plain_text_of rich_text) (\<lambda>orga_id_text.
               Inr (orga_id_text = expected)))
             else Inr False) = Inr True"
    by (blast dest: bind_err_Inr)
  then have r4: "bind_err (getitem fld (JStr ''rich_text'')) (\<lambda>rich_text.
               bind_err (plain_text_of rich_text) (\<lambda>orga_id_text.
               Inr (orga_id_text = expected))) = Inr True"
    by (cases filled) simp_all
  then obtain rich where
    g: "getitem fld (JStr ''rich_text'') = Inr rich" and
    r5: "bind_err (plain_text_of rich) (\<lambda>orga_id_text. Inr (orga_id_text = expected)) = Inr True"
    by (blast dest: bind_err_Inr)
  from r5 have "plain_text_of rich = Inr expected"
    by (auto dest: bind_err_Inr)
  with p f g show ?thesis by blast
qed

lemma verify_True:
  assumes "fst (verify_card_property env page_id expected w) = Inr True"
  shows "\<exists>page. env (calls w) (GetPage page_id) = Response 200 (Some page)
              \<and> field_matches page expected = Inr True"
  using assms
  by (auto simp: verify_card_property_def and_then_def request_def Let_def print_def
        response_json_def raise_apply succeed_apply lift_apply
        split: http.splits option.splits if_splits)

lemma write_and_verify_cases:
  "fst (write_and_verify env page_id title org_id w) =
     (case update_card_property env page_id org_id w of
        (Inl e, w1) \<Rightarrow> Inl e
      | (Inr updated, w1) \<Rightarrow>
          if updated then
            (case fst (verify_card_property env page_id org_id w1) of
               Inl e \<Rightarrow> Inl e
             | Inr verified \<Rightarrow>
                 if verified then Inr [card_row (card_link page_id) title org_id] else Inr [])
          else Inr [])"
  by (auto simp: write_and_verify_def and_then_def print_def succeed_apply
        split: prod.splits sum.splits)

lemma step_in_reaches_write:
  assumes "dict_get item ''properties'' (JObj []) = Inr properties"
    and "dict_get properties ''ORGA ID*'' (JObj []) = Inr fld"
    and "target_filled fld = Inr False"
    and "getitem item (JStr ''id'') = Inr (JStr page_id)"
    and "Some page_id \<notin> ids"
    and "card_title properties = Inr title"
    and "get_page_blocks env page_id w = (Inr blocks, w1)"
    and "truthy blocks"
    and "extract_org_id_from_blocks_in blocks = Inr (Some org_id)"
    and "org_id \<noteq> []"
  shows "fst (card_step_in env ids item w) = fst (write_and_verify env page_id title org_id w1)"
  using assms
  by (simp add: card_step_in_def and_then_lift_Inr)
     (auto simp: and_then_def lift_apply progress_update_def succeed_apply
           split: prod.splits sum.splits)

text \<open>
  C2.  In the write-back variant, the write step of an entry yields the entry's Result
  Record exactly when \<^verbatim>\<open>update_card_property\<close> returns true and the following
  \<^verbatim>\<open>verify_card_property\<close> returns true; a refused update and a failed verification yield
  no record, and whatever else happens yields no record either.  A verification returns
  true only if the re-fetched page answered with status 200 and the plain texts of its
  \<^verbatim>\<open>ORGA ID*\<close> rich text, concatenated, equal the expected value.  An entry with an empty
  target field, not among the processed identifiers and with an identifier found in its
  blocks, yields what this write step yields.
\<close>

theorem recorded_iff_written_and_verified:
  "(fst (write_and_verify env page_id title org_id w1)
        = Inr [card_row (card_link page_id) title org_id]
      \<longleftrightarrow> fst (update_card_property env page_id org_id w1) = Inr True
          \<and> fst (verify_card_property env page_id org_id
                    (snd (update_card_property env page_id org_id w1))) = Inr True)
   \<and> (fst (update_card_property env page_id org_id w1) = Inr False
        \<longrightarrow> fst (write_and_verify env page_id title org_id w1) = Inr [])
   \<and> (fst (update_card_property env page_id org_id w1) = Inr True
        \<and> fst (verify_card_property env page_id org_id
                  (snd (update_card_property env page_id org_id w1))) = Inr False
        \<longrightarrow> fst (write_and_verify env page_id title org_id w1) = Inr [])
   \<and> (fst (write_and_verify env page_id title org_id w1)
          \<noteq> Inr [card_row (card_link page_id) title org_id]
        \<longrightarrow> fst (write_and_verify env page_id title org_id w1) = Inr []
            \<or> (\<exists>e. fst (write_and_verify env page_id title org_id w1) = Inl e))
   \<and> (fst (verify_card_property env page_id expected w2) = Inr True
        \<longrightarrow> (\<exists>page properties fld rich.
               env (calls w2) (GetPage page_id) = Response 200 (Some page)
             \<and> dict_get page ''properties'' (JObj []) = Inr properties
             \<and> dict_get properties ''ORGA ID*'' (JObj []) = Inr fld
             \<and> getitem fld (JStr ''rich_text'') = Inr rich
             \<and> plain_text_of rich = Inr expected))
   \<and> (dict_get item ''properties'' (JObj []) = Inr item_properties
        \<and> dict_get item_properties ''ORGA ID*'' (JObj []) = Inr item_field
        \<and> target_filled item_field = Inr False
        \<and> getitem item (JStr ''id'') = Inr (JStr page_id)
        \<and> Some page_id \<notin> ids
        \<and> card_title item_properties = Inr title
        \<and> get_page_blocks env page_id w = (Inr blocks, w1)
        \<and> truthy blocks
        \<and> extract_org_id_from_blocks_in blocks = Inr (Some org_id)
        \<and> org_id \<noteq> []
        \<longrightarrow> fst (card_step_in env ids item w)
              = fst (write_and_verify env page_id title org_id w1))"
proof (intro conjI impI)
  show "fst (write_and_verify env page_id title org_id w1)
          = Inr [card_row (card_link page_id) title org_id]
        \<longleftrightarrow> fst (update_card_property env page_id org_id w1) = Inr True
            \<and> fst (verify_card_property env page_id org_id
                      (snd (update_card_property env page_id org_id w1))) = Inr True"
    by (auto simp: write_and_verify_cases split: prod.splits sum.splits if_splits)
next
  assume "fst (update_card_property env page_id org_id w1) = Inr False"
  then show "fst (write_and_verify env page_id title org_id w1) = Inr []"
    by (auto simp: write_and_verify_cases split: prod.splits sum.splits if_splits)
next
  assume "fst (update_card_property env page_id org_id w1) = Inr True
        \<and> fst (verify_card_property env page_id org_id
                  (snd (update_card_property env page_id org_id w1))) = Inr False"
  then show "fst (write_and_verify env page_id title org_id w1) = Inr []"
    by (auto simp: write_and_verify_cases split: prod.splits sum.splits if_splits)
next
  assume "fst (write_and_verify env page_id title org_id w1)
            \<noteq> Inr [card_row (card_link page_id) title org_id]"
  then show "fst (write_and_verify env page_id title org_id w1) = Inr []
             \<or> (\<exists>e. fst (write_and_verify env page_id title org_id w1) = Inl e)"
    by (auto simp: write_and_verify_cases split: prod.splits sum.splits if_splits)
next
  assume "fst (verify_card_property env page_id expected w2) = Inr True"
  from verify_True[OF this] obtain page where
    "env (calls w2) (GetPage page_id) = Response 200 (Some page)"
    "field_matches page expected = Inr True"
    by blast
  with field_matches_True[of page expected]
  show "\<exists>page properties fld rich.
               env (calls w2) (GetPage page_id) = Response 200 (Some page)
             \<and> dict_get page ''properties'' (JObj []) = Inr properties
             \<and> dict_get properties ''ORGA ID*'' (JObj []) = Inr fld
             \<and> getitem fld (JStr ''rich_text'') = Inr rich
             \<and> plain_text_of rich = Inr expected"
    by blast
next
  assume "dict_get item ''properties'' (JObj []) = Inr item_properties
        \<and> dict_get item_properties ''ORGA ID*'' (JObj []) = Inr item_field
        \<and> target_filled item_field = Inr False
        \<and> getitem item (JStr ''id'') = Inr (JStr page_id)
        \<and> Some page_id \<notin> ids
        \<and> card_title item_properties = Inr title
        \<and> get_page_blocks env page_id w = (Inr blocks, w1)
        \<and> truthy blocks
        \<and> extract_org_id_from_blocks_in blocks = Inr (Some org_id)
        \<and> org_id \<noteq> []"
  then show "fst (card_step_in env ids item w)
               = fst (write_and_verify env page_id title org_id w1)"
    by (intro step_in_reaches_write) blast+
qed

theorem recorded_iff_written_and_verified_witness:
  "fst (card_step_in ex_remote {} (ex_entry ex_id []) ex_world)
       = Inr [card_row (card_link ex_id) ''Acme'' ex_org]
   \<and> (\<exists>page properties fld rich.
         ex_remote (calls (snd (update_card_property ex_remote ex_id ex_org ex_after_blocks)))
             (GetPage ex_id) = Response 200 (Some page)
       \<and> dict_get page ''properties'' (JObj []) = Inr properties
       \<and> dict_get properties ''ORGA ID*'' (JObj []) = Inr fld
       \<and> getitem fld (JStr ''rich_text'') = Inr rich
       \<and> plain_text_of rich = Inr ex_org)
   \<and> fst (write_and_verify ex_remote_stale ex_id ''Acme'' ex_org ex_after_blocks) = Inr []
   \<and> fst (write_and_verify ex_remote_reject ex_id ''Acme'' ex_org ex_after_blocks) = Inr []"
proof -
  have u: "fst (update_card_property ex_remote ex_id ex_org ex_after_blocks) = Inr True"
    by code_simp
  have v: "fst (verify_card_property ex_remote ex_id ex_org
             (snd (update_card_property ex_remote ex_id ex_org ex_after_blocks))) = Inr True"
    by code_simp
  have reach:
    "dict_get (ex_entry ex_id []) ''properties'' (JObj []) = Inr ex_properties
     \<and> dict_get ex_properties ''ORGA ID*'' (JObj []) = Inr ex_field
     \<and> target_filled ex_field = Inr False
     \<and> getitem (ex_entry ex_id []) (JStr ''id'') = Inr (JStr ex_id)
     \<and> Some ex_id \<notin> {}
     \<and> card_title ex_properties = Inr ''Acme''
     \<and> get_page_blocks ex_remote ex_id ex_world = (Inr ex_blocks, ex_after_blocks)
     \<and> truthy ex_blocks
     \<and> extract_org_id_from_blocks_in ex_blocks = Inr (Some ex_org)
     \<and> ex_org \<noteq> []"
    by code_simp
  have stale:
    "fst (update_card_property ex_remote_stale ex_id ex_org ex_after_blocks) = Inr True
     \<and> fst (verify_card_property ex_remote_stale ex_id ex_org
             (snd (update_card_property ex_remote_stale ex_id ex_org ex_after_blocks)))
         = Inr False"
    by code_simp
  have reject: "fst (update_card_property ex_remote_reject ex_id ex_org ex_after_blocks) = Inr False"
    by code_simp
  note t = recorded_iff_written_and_verified
             [where env = ex_remote and page_id = ex_id and title = "''Acme''" and org_id = ex_org
                and ?w1.0 = ex_after_blocks and w = ex_world and item = "ex_entry ex_id []"
                and ids = "{}" and blocks = ex_blocks and item_properties = ex_properties
                and item_field = ex_field and expected = ex_org
                and ?w2.0 = "snd (update_card_property ex_remote ex_id ex_org ex_after_blocks)"]
  note ts = recorded_iff_written_and_verified
             [where env = ex_remote_stale and page_id = ex_id and title = "''Acme''"
                and org_id = ex_org and ?w1.0 = ex_after_blocks]
  note tr = recorded_iff_written_and_verified
             [where env = ex_remote_reject and page_id = ex_id and title = "''Acme''"
                and org_id = ex_org and ?w1.0 = ex_after_blocks]
  from t have a: "fst (write_and_verify ex_remote ex_id ''Acme'' ex_org ex_after_blocks)
                    = Inr [card_row (card_link ex_id) ''Acme'' ex_org]"
    using u v by blast
  from t reach have "fst (card_step_in ex_remote {} (ex_entry ex_id []) ex_world)
                    = fst (write_and_verify ex_remote ex_id ''Acme'' ex_org ex_after_blocks)"
    by blast
  with a have 1: "fst (card_step_in ex_remote {} (ex_entry ex_id []) ex_world)
                    = Inr [card_row (card_link ex_id) ''Acme'' ex_org]"
    by simp
  from t v have 2: "\<exists>page properties fld rich.
         ex_remote (calls (snd (update_card_property ex_remote ex_id ex_org ex_after_blocks)))
             (GetPage ex_id) = Response 200 (Some page)
       \<and> dict_get page ''properties'' (JObj []) = Inr properties
       \<and> dict_get properties ''ORGA ID*'' (JObj []) = Inr fld
       \<and> getitem fld (JStr ''rich_text'') = Inr rich
       \<and> plain_text_of rich = Inr ex_org"
    by blast
  from ts stale have 3:
    "fst (write_and_verify ex_remote_stale ex_id ''Acme'' ex_org ex_after_blocks) = Inr []"
    by blast
  from tr reject have 4:
    "fst (write_and_verify ex_remote_reject ex_id ''Acme'' ex_org ex_after_blocks) = Inr []"
    by blast
  from 1 2 3 4 show ?thesis by blast
qed

subsection \<open>The processed identifiers\<close>

text \<open>
  An entry whose identifier is in the set is skipped before any request.  The set holds
  the last path segment of each exported Link, and a Link ends with the identifier
  stripped of its hyphens: the segment is the identifier itself only for an identifier
  without hyphens.
\<close>

lemma step_in_skip_processed:
  assumes "dict_get item ''properties'' (JObj []) = Inr properties"
    and "dict_get properties ''ORGA ID*'' (JObj []) = Inr fld"
    and "target_filled fld = Inr False"
    and "getitem item (JStr ''id'') = Inr (JStr page_id)"
    and "Some page_id \<in> ids"
  shows "card_step_in env ids item w = (Inr [], w)"
  using assms by (simp add: card_step_in_def and_then_lift_Inr succeed_apply)

lemma trailing_segment_card_link:
  assumes "CHR ''/'' \<notin> set page_id" and "CHR ''-'' \<notin> set page_id" and "page_id \<noteq> []"
  shows "trailing_segment (card_link page_id) = Some page_id"
proof -
  from assms(2) have s: "strip_dashes page_id = page_id"
    by (auto simp: strip_dashes_def filter_id_conv)
  have "takeWhile (\<lambda>c. c \<noteq> CHR ''/'') (rev page_id @ rev ''https://www.notion.so/'')
          = rev page_id @ takeWhile (\<lambda>c. c \<noteq> CHR ''/'') (rev ''https://www.notion.so/'')"
    by (rule takeWhile_append2) (use assms(1) in auto)
  with s assms(3) show ?thesis
    by (simp add: trailing_segment_def card_link_def Let_def)
qed

text \<open>
  C1.  The round trip of the write-back variant, on an entry with the hyphenated identifier
  the service gives its pages: the first run exports the entry; the set read back from
  that file holds the identifier without hyphens, the membership test on the entry's
  identifier is false, and a second run over the same listing fetches the blocks of the
  entry, updates it and verifies it again instead of skipping it.
\<close>

theorem exported_entry_is_processed_again:
  "map_option (\<lambda>p. csv_file (snd p)) (main_in ex_remote 2 ex_world)
     = Some (Some [card_row (card_link ex_id) ''Acme'' ex_org])
   \<and> load_processed_ids (Some [card_row (card_link ex_id) ''Acme'' ex_org])
     = {Some ''598337872cf94fdf8782e53db20768a5''}
   \<and> in_processed (JStr ex_id)
        (load_processed_ids (Some [card_row (card_link ex_id) ''Acme'' ex_org])) = Inr False
   \<and> map_option (\<lambda>p. (fst p, map fst (calls (snd p))))
        (main_in ex_remote 2
           (ex_world\<lparr>csv_file := Some [card_row (card_link ex_id) ''Acme'' ex_org]\<rparr>))
     = Some (Inr (), [QueryDatabase None, QueryDatabase None,
                      GetBlocks ex_id, PatchPage ex_id ex_org, GetPage ex_id])"
  by code_simp

subsection \<open>The progress bar\<close>

text \<open>
  C4.  The completed count after a page: of two entries, one with its target field set,
  the bar counts one in both variants; an entry among the processed identifiers of the
  write-back variant is not counted either.
\<close>

theorem skipped_entries_leave_the_bar_behind:
  "(let page = ex_page [ex_entry ex_id2 [ex_run ex_org], ex_entry ex_id []] False;
        r = extract_card_info_de ex_remote page ex_world
    in (fst r, bar_n (snd r)))
     = (Inr [card_row (card_link ex_id) ''Acme'' ex_org], 1)
   \<and> (let page = ex_page [ex_entry ex_id2 [ex_run ex_org], ex_entry ex_id []] False;
        r = extract_card_info_in ex_remote page {} ex_world
    in (fst r, bar_n (snd r)))
     = (Inr [card_row (card_link ex_id) ''Acme'' ex_org], 1)
   \<and> (let page = ex_page [ex_entry ex_id2 []] False;
        r = extract_card_info_in ex_remote page {Some ex_id2} ex_world
    in (fst r, bar_n (snd r)))
     = (Inr [], 0)"
  by code_simp

subsection \<open>The identifier extractor\<close>

declare re_findall_from.simps [simp del]

lemma findall_from_find:
  "re_findall_from t i =
     (case find (org_id_at t) [i ..< Suc (length t)] of
        None \<Rightarrow> []
      | Some k \<Rightarrow> take 36 (drop k t) # re_findall_from t (k + 36))"
proof (induct t i rule: re_findall_from.induct)
  case (1 t i)
  show ?case
  proof (cases "length t < i")
    case True
    then have e: "[i ..< Suc (length t)] = []" by simp
    have "re_findall_from t i = []"
      using True by (subst re_findall_from.simps) simp
    then show ?thesis by (simp only: e find.simps option.case)
  next
    case False
    then have up: "[i ..< Suc (length t)] = i # [Suc i ..< Suc (length t)]"
      by (simp add: upt_conv_Cons del: upt_Suc)
    show ?thesis
    proof (cases "org_id_at t i")
      case True
      with False have "re_findall_from t i = take 36 (drop i t) # re_findall_from t (i + 36)"
        by (subst re_findall_from.simps) simp
      with True up show ?thesis by (simp del: upt_Suc)
    next
      case no: False
      with False have "re_findall_from t i = re_findall_from t (Suc i)"
        by (subst re_findall_from.simps) simp
      with "1.hyps"(2)[OF False no] no up show ?thesis
        by (simp del: upt_Suc)
    qed
  qed
qed

lemma findall_search:
  "(case re_findall t of [] \<Rightarrow> None | m # ms \<Rightarrow> Some m) = re_search t"
  unfolding re_findall_def re_search_def
  by (subst findall_from_find) (simp split: option.splits)

lemma org_id_at_bound: "org_id_at t i \<Longrightarrow> i \<le> length t"
proof -
  assume "org_id_at t i"
  then have "length (take 36 (drop i t)) = length org_id_atoms"
    by (auto simp: org_id_at_def dest: list_all2_lengthD)
  then show ?thesis by (simp add: org_id_atoms_def)
qed

lemma re_search_None: "re_search t = None \<longleftrightarrow> \<not> (\<exists>i. org_id_at t i)"
proof
  assume "re_search t = None"
  then have n: "\<forall>x \<in> set [0 ..< Suc (length t)]. \<not> org_id_at t x"
    by (simp add: re_search_def find_None_iff del: upt_Suc)
  show "\<not> (\<exists>i. org_id_at t i)"
  proof
    assume "\<exists>i. org_id_at t i"
    then obtain i where i: "org_id_at t i" by blast
    from org_id_at_bound[OF i] have "i \<in> set [0 ..< Suc (length t)]" by auto
    with n i show False by blast
  qed
next
  assume "\<not> (\<exists>i. org_id_at t i)"
  then show "re_search t = None"
    by (simp add: re_search_def find_None_iff del: upt_Suc)
qed

lemma re_search_Some:
  assumes "re_search t = Some m"
  shows "\<exists>i. org_id_at t i \<and> m = take 36 (drop i t) \<and> (\<forall>i'<i. \<not> org_id_at t i')"
proof -
  from assms obtain k where
    f: "find (org_id_at t) [0 ..< Suc (length t)] = Some k" and m: "m = take 36 (drop k t)"
    by (auto simp: re_search_def)
  from f obtain n where
    n: "n < length [0 ..< Suc (length t)]" "org_id_at t ([0 ..< Suc (length t)] ! n)"
       "k = [0 ..< Suc (length t)] ! n"
       "\<forall>j<n. \<not> org_id_at t ([0 ..< Suc (length t)] ! j)"
    unfolding find_Some_iff by blast
  from n(1) have kn: "[0 ..< Suc (length t)] ! n = n"
    by (metis add_0 length_upt minus_nat.diff_0 nth_upt)
  have "\<forall>i'<k. \<not> org_id_at t i'"
  proof (intro allI impI)
    fix i' assume "i' < k"
    with n(1,3) kn have "i' < n" and "[0 ..< Suc (length t)] ! i' = i'"
      by (simp_all del: upt_Suc)
    with n(4) show "\<not> org_id_at t i'" by (auto simp del: upt_Suc)
  qed
  with n(2,3) m show ?thesis by blast
qed

lemma scan_in_de: "scan_blocks_in js = scan_blocks_de js"
proof (induction js)
  case Nil
  show ?case by simp
next
  case (Cons j js)
  show ?case
  proof (cases "block_text j")
    case (Inl e)
    then show ?thesis by simp
  next
    case (Inr t)
    show ?thesis
    proof (cases t)
      case None
      with Inr Cons show ?thesis by simp
    next
      case (Some s)
      with Inr Cons findall_search[of s] show ?thesis
        by (cases "re_findall s") (auto split: option.splits)
    qed
  qed
qed

lemma is_run_plain_text: "is_run p r \<Longrightarrow> getitem p (JStr ''plain_text'') = Inr (JStr r)"
  by (cases p) (simp_all add: is_run_def)

lemma runs_map_err:
  "list_all2 is_run parts rs
   \<Longrightarrow> map_err (\<lambda>p. getitem p (JStr ''plain_text'')) parts = Inr (map JStr rs)"
  by (induction rule: list_all2_induct) (simp_all add: is_run_plain_text)

lemma str_join_strs: "str_join (map JStr rs) = Inr (concat rs)"
  by (induction rs) simp_all

lemma holds_runs_text:
  assumes "holds_runs block_data rs"
  shows "bind_err (dict_get block_data ''rich_text'' (JArr [])) plain_text_of = Inr (concat rs)"
proof (cases block_data)
  case (JObj d)
  show ?thesis
  proof (cases "map_of d ''rich_text''")
    case None
    with assms JObj show ?thesis
      by (simp add: bind_err_def plain_text_of_def)
  next
    case (Some v)
    with assms JObj obtain parts where v: "v = JArr parts" and l: "list_all2 is_run parts rs"
      by (cases v) auto
    with Some JObj show ?thesis
      by (simp add: bind_err_def plain_text_of_def runs_map_err str_join_strs)
  qed
qed (use assms in simp_all)

lemma represents_block_text:
  assumes "represents j b"
  shows "block_text j
           = Inr (if tag b \<in> set recognized_types then Some (concat (runs b)) else None)"
proof -
  from assms have ty: "member_of j ''type'' = Some (JStr (tag b))"
    by (simp add: represents_def)
  from assms obtain block_data where
    d: "member_of j (tag b) = Some block_data" and
    h: "tag b \<in> set recognized_types \<longrightarrow> holds_runs block_data (runs b)"
    by (auto simp: represents_def split: option.splits)
  from ty obtain kvs where j: "j = JObj kvs" by (cases j) auto
  have m: "JStr (tag b) \<in> set (map JStr recognized_types) \<longleftrightarrow> tag b \<in> set recognized_types"
    by auto
  show ?thesis
  proof (cases "tag b \<in> set recognized_types")
    case True
    with h have "bind_err (dict_get block_data ''rich_text'' (JArr [])) plain_text_of
                   = Inr (concat (runs b))"
      by (simp add: holds_runs_text)
    then have "bind_err (dict_get block_data ''rich_text'' (JArr []))
                 (\<lambda>rich_text. bind_err (plain_text_of rich_text) (\<lambda>text. Inr (Some text)))
                = Inr (Some (concat (runs b)))"
      by (auto simp: bind_err_def split: sum.splits)
    with True ty d j m show ?thesis
      unfolding block_text_def by (simp add: bind_err_def del: set_map)
  next
    case False
    with ty d j m show ?thesis
      unfolding block_text_def by (simp add: bind_err_def del: set_map)
  qed
qed

lemma scan_represented:
  "list_all2 represents js bs
   \<Longrightarrow> scan_blocks_de js
        = Inr (case find matching bs of
                 None \<Rightarrow> None
               | Some b \<Rightarrow> re_search (concat (runs b)))"
proof (induction rule: list_all2_induct)
  case Nil
  show ?case by simp
next
  case (Cons j js b bs)
  show ?case
  proof (cases "tag b \<in> set recognized_types")
    case False
    then have "\<not> matching b" by (simp add: matching_def)
    with False Cons represents_block_text[of j b] show ?thesis
      by simp
  next
    case True
    show ?thesis
    proof (cases "re_search (concat (runs b))")
      case None
      then have "\<not> matching b"
        using re_search_None[of "concat (runs b)"] by (simp add: matching_def)
      with None True Cons represents_block_text[of j b]
      show ?thesis by simp
    next
      case (Some m)
      then have "matching b"
        using re_search_None[of "concat (runs b)"] True by (auto simp: matching_def)
      with Some True Cons represents_block_text[of j b] show ?thesis
        by simp
    qed
  qed
qed

lemma extract_represented:
  assumes "member_of response ''results'' = Some (JArr js)" and "list_all2 represents js bs"
  shows "extract_org_id_from_blocks_de response
           = Inr (case find matching bs of None \<Rightarrow> None | Some b \<Rightarrow> re_search (concat (runs b)))"
    and "extract_org_id_from_blocks_in response = extract_org_id_from_blocks_de response"
  using member_of_dict_get[OF assms(1), of "JArr []"] scan_represented[OF assms(2)]
  by (simp_all add: extract_org_id_from_blocks_de_def extract_org_id_from_blocks_in_def
        bind_err_def scan_in_de)

text \<open>
  C3.  On every sequence of Content Blocks both extractors return the same value, never an
  error.  It is none exactly when no block of a recognized variant has a match of the
  pattern in its concatenated runs.  Otherwise it is the 36 characters at the leftmost
  position where the pattern matches, in the first block of the sequence that is of a
  recognized variant and has any match; blocks of other variants are passed over
  whatever they contain.
\<close>

theorem extractor_returns_earliest_identifier:
  assumes "member_of response ''results'' = Some (JArr js)"
    and "list_all2 represents js bs"
  shows "\<exists>r. extract_org_id_from_blocks_de response = Inr r
           \<and> extract_org_id_from_blocks_in response = Inr r
           \<and> (r = None \<longleftrightarrow>
                 (\<forall>b \<in> set bs. tag b \<in> set recognized_types
                     \<longrightarrow> \<not> (\<exists>i. org_id_at (concat (runs b)) i)))
           \<and> (\<forall>ident. r = Some ident \<longrightarrow>
                 (\<exists>k i. k < length bs
                    \<and> tag (bs ! k) \<in> set recognized_types
                    \<and> org_id_at (concat (runs (bs ! k))) i
                    \<and> ident = take 36 (drop i (concat (runs (bs ! k))))
                    \<and> (\<forall>i'<i. \<not> org_id_at (concat (runs (bs ! k))) i')
                    \<and> (\<forall>j<k. tag (bs ! j) \<in> set recognized_types
                           \<longrightarrow> \<not> (\<exists>i. org_id_at (concat (runs (bs ! j))) i))))"
proof (cases "find matching bs")
  case None
  then have no: "\<forall>b \<in> set bs. tag b \<in> set recognized_types
                   \<longrightarrow> \<not> (\<exists>i. org_id_at (concat (runs b)) i)"
    by (auto simp: find_None_iff matching_def)
  from None extract_represented[OF assms]
  have "extract_org_id_from_blocks_de response = Inr None"
    and "extract_org_id_from_blocks_in response = Inr None"
    by simp_all
  with no show ?thesis by simp
next
  case (Some b)
  then obtain k where k: "k < length bs" "matching (bs ! k)" "b = bs ! k"
      "\<forall>j<k. \<not> matching (bs ! j)"
    unfolding find_Some_iff by blast
  from k(2) obtain m where m: "re_search (concat (runs (bs ! k))) = Some m"
    using re_search_None[of "concat (runs (bs ! k))"] by (auto simp: matching_def)
  from re_search_Some[OF m] obtain i where
    i: "org_id_at (concat (runs (bs ! k))) i" "m = take 36 (drop i (concat (runs (bs ! k))))"
       "\<forall>i'<i. \<not> org_id_at (concat (runs (bs ! k))) i'"
    by blast
  from Some k(3) m extract_represented[OF assms]
  have e: "extract_org_id_from_blocks_de response = Inr (Some m)"
    "extract_org_id_from_blocks_in response = Inr (Some m)"
    by simp_all
  from k(1,2) have ex: "\<not> (\<forall>b \<in> set bs. tag b \<in> set recognized_types
                   \<longrightarrow> \<not> (\<exists>i. org_id_at (concat (runs b)) i))"
    by (auto simp: matching_def dest: nth_mem)
  have "\<exists>k i. k < length bs
                    \<and> tag (bs ! k) \<in> set recognized_types
                    \<and> org_id_at (concat (runs (bs ! k))) i
                    \<and> m = take 36 (drop i (concat (runs (bs ! k))))
                    \<and> (\<forall>i'<i. \<not> org_id_at (concat (runs (bs ! k))) i')
                    \<and> (\<forall>j<k. tag (bs ! j) \<in> set recognized_types
                           \<longrightarrow> \<not> (\<exists>i. org_id_at (concat (runs (bs ! j))) i))"
    using k(1,2,4) i unfolding matching_def by blast
  with e ex show ?thesis by simp
qed

theorem extractor_returns_earliest_identifier_witness:
  "member_of (JObj [(''object'', JStr ''list''), (''results'', JArr ex_block_list)]) ''results''
     = Some (JArr ex_block_list)
   \<and> list_all2 represents ex_block_list ex_cblocks
   \<and> extract_org_id_from_blocks_de
        (JObj [(''object'', JStr ''list''), (''results'', JArr ex_block_list)]) = Inr (Some ex_org)
   \<and> extract_org_id_from_blocks_in
        (JObj [(''object'', JStr ''list''), (''results'', JArr ex_block_list)]) = Inr (Some ex_org)"
proof -
  have m: "member_of (JObj [(''object'', JStr ''list''), (''results'', JArr ex_block_list)])
             ''results'' = Some (JArr ex_block_list)"
    by simp
  have r: "list_all2 represents ex_block_list ex_cblocks"
    by code_simp
  have d: "extract_org_id_from_blocks_de
        (JObj [(''object'', JStr ''list''), (''results'', JArr ex_block_list)]) = Inr (Some ex_org)"
    by code_simp
  from extractor_returns_earliest_identifier[OF m r] d
  have "extract_org_id_from_blocks_in
        (JObj [(''object'', JStr ''list''), (''results'', JArr ex_block_list)]) = Inr (Some ex_org)"
    by auto
  with m r d show ?thesis by simp
qed

subsection \<open>Blocks that lack what the extractor reads\<close>

lemma scan_de_passed_over:
  "list_all passed_over pre \<Longrightarrow> scan_blocks_de (pre @ rest) = scan_blocks_de rest"
  by (induction pre) (auto simp: passed_over_def split: sum.splits option.splits)

lemma re_search_empty: "re_search [] = None"
  by code_simp

lemma block_text_no_type:
  "member_of (JObj kvs) ''type'' = None \<Longrightarrow> block_text (JObj kvs) = Inl KeyError"
  by (simp add: block_text_def bind_err_def)

lemma block_text_no_field:
  assumes "member_of block ''type'' = Some (JStr t)" and "member_of block t = None"
  shows "block_text block = Inl KeyError"
  using assms by (cases block) (simp_all add: block_text_def bind_err_def)

lemma block_text_no_rich_text:
  assumes "member_of block ''type'' = Some (JStr t)" and "t \<in> set recognized_types"
    and "member_of block t = Some (JObj d)" and "map_of d ''rich_text'' = None"
  shows "block_text block = Inr (Some [])"
proof -
  have m: "JStr t \<in> set (map JStr recognized_types)" using assms(2) by auto
  from assms(1) obtain kvs where "block = JObj kvs" by (cases block) auto
  with assms m show ?thesis
    unfolding block_text_def
    by (simp add: bind_err_def plain_text_of_def del: set_map)
qed

text \<open>
  C10.  In both variants, for every block the scan reaches (the blocks before it are passed
  over), the extractor subscripts the block with \<^verbatim>\<open>type\<close> and then with the value found
  there, before it tests that value against the recognized types: a block without a
  \<^verbatim>\<open>type\<close> key, or without a member named by its type (recognized or not), makes the
  extractor raise \<^verbatim>\<open>KeyError\<close>, while a block of a recognized type whose member has no
  \<^verbatim>\<open>rich_text\<close> has the empty text and the scan goes on with the blocks after it.
\<close>

theorem reached_block_is_read_before_its_type_is_tested:
  assumes "member_of response ''results'' = Some (JArr (pre @ block # post))"
    and "list_all passed_over pre"
  shows "((\<exists>kvs. block = JObj kvs) \<and> member_of block ''type'' = None
           \<longrightarrow> extract_org_id_from_blocks_de response = Inl KeyError
             \<and> extract_org_id_from_blocks_in response = Inl KeyError)
       \<and> (member_of block ''type'' = Some (JStr t) \<and> member_of block t = None
           \<longrightarrow> extract_org_id_from_blocks_de response = Inl KeyError
             \<and> extract_org_id_from_blocks_in response = Inl KeyError)
       \<and> (member_of block ''type'' = Some (JStr t) \<and> t \<in> set recognized_types
             \<and> member_of block t = Some (JObj d) \<and> map_of d ''rich_text'' = None
           \<longrightarrow> block_text block = Inr (Some [])
             \<and> extract_org_id_from_blocks_de response = scan_blocks_de post
             \<and> extract_org_id_from_blocks_in response = scan_blocks_in post)"
proof -
  have de: "extract_org_id_from_blocks_de response = scan_blocks_de (block # post)"
    using member_of_dict_get[OF assms(1), of "JArr []"] scan_de_passed_over[OF assms(2)]
    by (simp add: extract_org_id_from_blocks_de_def bind_err_def)
  have "in": "extract_org_id_from_blocks_in response = scan_blocks_de (block # post)"
    using member_of_dict_get[OF assms(1), of "JArr []"] scan_de_passed_over[OF assms(2)]
    by (simp add: extract_org_id_from_blocks_in_def bind_err_def scan_in_de)
  show ?thesis
  proof (intro conjI impI)
    assume "(\<exists>kvs. block = JObj kvs) \<and> member_of block ''type'' = None"
    then have "block_text block = Inl KeyError" by (auto simp: block_text_no_type)
    with de "in" show "extract_org_id_from_blocks_de response = Inl KeyError"
      and "extract_org_id_from_blocks_in response = Inl KeyError"
      by simp_all
  next
    assume "member_of block ''type'' = Some (JStr t) \<and> member_of block t = None"
    then have "block_text block = Inl KeyError" by (simp add: block_text_no_field)
    with de "in" show "extract_org_id_from_blocks_de response = Inl KeyError"
      and "extract_org_id_from_blocks_in response = Inl KeyError"
      by simp_all
  next
    assume a: "member_of block ''type'' = Some (JStr t) \<and> t \<in> set recognized_types
             \<and> member_of block t = Some (JObj d) \<and> map_of d ''rich_text'' = None"
    then have b: "block_text block = Inr (Some [])"
      by (intro block_text_no_rich_text[of block t d]) simp_all
    then show "block_text block = Inr (Some [])" .
    from b de "in" show "extract_org_id_from_blocks_de response = scan_blocks_de post"
      and "extract_org_id_from_blocks_in response = scan_blocks_in post"
      by (simp_all add: re_search_empty scan_in_de)
  qed
qed

theorem reached_block_is_read_before_its_type_is_tested_witness:
  "list_all passed_over [ex_heading]
   \<and> extract_org_id_from_blocks_de (ex_response (JObj [(''object'', JStr ''block'')]))
       = Inl KeyError
   \<and> extract_org_id_from_blocks_in (ex_response (JObj [(''object'', JStr ''block'')]))
       = Inl KeyError
   \<and> extract_org_id_from_blocks_de (ex_response (JObj [(''type'', JStr ''image'')]))
       = Inl KeyError
   \<and> extract_org_id_from_blocks_in (ex_response (JObj [(''type'', JStr ''image'')]))
       = Inl KeyError
   \<and> extract_org_id_from_blocks_de
        (ex_response (JObj [(''type'', JStr ''paragraph''), (''paragraph'', JObj [])]))
       = Inr (Some ex_org)
   \<and> extract_org_id_from_blocks_in
        (ex_response (JObj [(''type'', JStr ''paragraph''), (''paragraph'', JObj [])]))
       = Inr (Some ex_org)"
proof -
  have p: "list_all passed_over [ex_heading]"
    by code_simp
  have m: "\<And>block. member_of (ex_response block) ''results''
             = Some (JArr ([ex_heading] @ block # [ex_paragraph [ex_org]]))"
    by (simp add: ex_response_def)
  have h1: "(\<exists>kvs. JObj [(''object'', JStr ''block'')] = JObj kvs)
            \<and> member_of (JObj [(''object'', JStr ''block'')]) ''type'' = None"
    by simp
  have h2: "member_of (JObj [(''type'', JStr ''image'')]) ''type'' = Some (JStr ''image'')
            \<and> member_of (JObj [(''type'', JStr ''image'')]) ''image'' = None"
    by simp
  have h3: "member_of (JObj [(''type'', JStr ''paragraph''), (''paragraph'', JObj [])]) ''type''
              = Some (JStr ''paragraph'')
            \<and> ''paragraph'' \<in> set recognized_types
            \<and> member_of (JObj [(''type'', JStr ''paragraph''), (''paragraph'', JObj [])])
                 ''paragraph'' = Some (JObj [])
            \<and> map_of ([] :: (string \<times> json) list) ''rich_text'' = None"
    by (simp add: recognized_types_def)
  have s: "scan_blocks_de [ex_paragraph [ex_org]] = Inr (Some ex_org)"
    "scan_blocks_in [ex_paragraph [ex_org]] = Inr (Some ex_org)"
    by code_simp+
  note t = reached_block_is_read_before_its_type_is_tested[OF m p]
  from t[of "JObj [(''object'', JStr ''block'')]"] h1
  have 1: "extract_org_id_from_blocks_de (ex_response (JObj [(''object'', JStr ''block'')]))
             = Inl KeyError
           \<and> extract_org_id_from_blocks_in (ex_response (JObj [(''object'', JStr ''block'')]))
             = Inl KeyError"
    by blast
  from t[of "JObj [(''type'', JStr ''image'')]" "''image''"] h2
  have 2: "extract_org_id_from_blocks_de (ex_response (JObj [(''type'', JStr ''image'')]))
             = Inl KeyError
           \<and> extract_org_id_from_blocks_in (ex_response (JObj [(''type'', JStr ''image'')]))
             = Inl KeyError"
    by blast
  from t[of "JObj [(''type'', JStr ''paragraph''), (''paragraph'', JObj [])]" "''paragraph''" "[]"]
       h3
  have 3: "extract_org_id_from_blocks_de
             (ex_response (JObj [(''type'', JStr ''paragraph''), (''paragraph'', JObj [])]))
             = scan_blocks_de [ex_paragraph [ex_org]]
           \<and> extract_org_id_from_blocks_in
             (ex_response (JObj [(''type'', JStr ''paragraph''), (''paragraph'', JObj [])]))
             = scan_blocks_in [ex_paragraph [ex_org]]"
    by blast
  from p 1 2 3 s show ?thesis by simp
qed

text \<open>
  A block after the first match is not reached: here the second block has no \<^verbatim>\<open>type\<close> key
  and both extractors return the identifier of the first.
\<close>

theorem block_after_the_match_is_never_read:
  "extract_org_id_from_blocks_de
     (JObj [(''results'', JArr [ex_paragraph [ex_org], JObj [(''object'', JStr ''block'')]])])
     = Inr (Some ex_org)
   \<and> extract_org_id_from_blocks_in
     (JObj [(''results'', JArr [ex_paragraph [ex_org], JObj [(''object'', JStr ''block'')]])])
     = Inr (Some ex_org)
   \<and> member_of (JObj [(''object'', JStr ''block'')]) ''type'' = None"
  by code_simp

subsection \<open>Reaching the export\<close>

lemma pagination_loop_prefix:
  "pagination_loop proc env n cursor acc w = Some (Inr rows, w') \<Longrightarrow> prefix acc rows"
proof (induction n arbitrary: cursor acc w)
  case 0
  then show ?case by simp
next
  case (Suc n)
  from Suc.prems show ?case
    by (auto split: prod.splits sum.splits if_splits dest!: Suc.IH dest: append_prefixD)
qed

lemma pagination_loop_more_fuel:
  "pagination_loop proc env n cursor acc w = Some r
   \<Longrightarrow> pagination_loop proc env (n + k) cursor acc w = Some r"
proof (induction n arbitrary: cursor acc w)
  case 0
  then show ?case by simp
next
  case (Suc n)
  from Suc.prems show ?case
    by (auto split: prod.splits sum.splits if_splits dest!: Suc.IH)
qed

lemma failed_fetch_breaks_loop:
  assumes "env (calls w) (QueryDatabase (if truthy cursor then Some cursor else None))
             = Response code (Some body)"
    and "code \<noteq> 200"
  shows "pagination_loop proc env (Suc n) cursor acc w
           = Some (Inr acc,
                   w\<lparr>calls := calls w @ [(QueryDatabase (if truthy cursor then Some cursor else None),
                                           Response code (Some body))],
                     console := console w @ [ApiError code, Printed body]\<rparr>)"
  using assms
  by (simp add: get_database_items_def and_then_def request_def Let_def print_def
        response_json_def succeed_apply)

lemma gather_de_outcome:
  assumes "gather_de env fuel w = Some (Inr x, w1)"
  shows "(x = None \<longleftrightarrow> fst (get_database_items env JNull w) = Inr JNull)
       \<and> (\<forall>rows. x = Some rows \<longrightarrow> main_de env fuel w = Some (export_de rows w1))"
  using assms
  by (auto simp: gather_de_def main_de_def split: prod.splits sum.splits if_splits option.splits)

lemma gather_in_outcome:
  assumes "gather_in env fuel w = Some (Inr x, w1)"
  shows "(x = None \<longleftrightarrow> fst (get_database_items env JNull w) = Inr JNull)
       \<and> (\<forall>rows. x = Some rows \<longrightarrow> main_in env fuel w = Some (export_in rows w1))"
  using assms
  by (auto simp: gather_in_def main_in_def Let_def
        split: prod.splits sum.splits if_splits option.splits)

text \<open>
  C7.  In both variants, a run in which nothing raises and whose pagination ends returns
  before any accumulation exactly when the initial listing failed, and otherwise goes
  on to its export step with the rows accumulated.  A page fetch answered with a status
  other than 200 and a JSON body only ends the pagination loop: the loop returns what was
  accumulated so far.  What is accumulated is never dropped by a later page, and a loop
  that has ended gives the same result with any larger bound on its pages.
\<close>

theorem run_without_raise_reaches_export:
  "(gather_de env fuel w = Some (Inr x, w1) \<longrightarrow>
      (x = None \<longleftrightarrow> fst (get_database_items env JNull w) = Inr JNull)
      \<and> (\<forall>rows. x = Some rows \<longrightarrow> main_de env fuel w = Some (export_de rows w1)))
   \<and> (gather_in env fuel w = Some (Inr x, w1) \<longrightarrow>
      (x = None \<longleftrightarrow> fst (get_database_items env JNull w) = Inr JNull)
      \<and> (\<forall>rows. x = Some rows \<longrightarrow> main_in env fuel w = Some (export_in rows w1)))
   \<and> (env (calls w2) (QueryDatabase (if truthy cursor then Some cursor else None))
          = Response code (Some body) \<and> code \<noteq> 200 \<longrightarrow>
        pagination_loop proc env (Suc n) cursor acc w2
          = Some (Inr acc,
                  w2\<lparr>calls := calls w2
                               @ [(QueryDatabase (if truthy cursor then Some cursor else None),
                                   Response code (Some body))],
                      console := console w2 @ [ApiError code, Printed body]\<rparr>))
   \<and> (pagination_loop proc env n cursor acc w2 = Some (Inr rows, w3) \<longrightarrow> prefix acc rows)
   \<and> (pagination_loop proc env n cursor acc w2 = Some r \<longrightarrow>
        pagination_loop proc env (n + k) cursor acc w2 = Some r)"
  using gather_de_outcome[of env fuel w x w1] gather_in_outcome[of env fuel w x w1]
    failed_fetch_breaks_loop[of env w2 cursor code body proc n acc]
    pagination_loop_prefix[of proc env n cursor acc w2 rows w3]
    pagination_loop_more_fuel[of proc env n cursor acc w2 r k]
  by blast

theorem run_without_raise_reaches_export_witness:
  "gather_de ex_remote_cut 3 ex_world
     = Some (Inr (Some [ex_row]), snd (the (gather_de ex_remote_cut 3 ex_world)))
   \<and> gather_in ex_remote_cut 3 ex_world
     = Some (Inr (Some [ex_row]), snd (the (gather_in ex_remote_cut 3 ex_world)))
   \<and> map_option (\<lambda>p. (fst p, csv_file (snd p))) (main_de ex_remote_cut 3 ex_world)
     = Some (Inr (), Some [ex_row])
   \<and> map_option (\<lambda>p. (fst p, csv_file (snd p))) (main_in ex_remote_cut 3 ex_world)
     = Some (Inr (), Some [ex_row])
   \<and> map_option fst
        (pagination_loop (extract_card_info_de ex_remote_cut) ex_remote_cut (Suc 0 + 4)
           (JStr ''next'') [ex_row] ex_world)
     = Some (Inr [ex_row])
   \<and> prefix [ex_row] [ex_row]"
proof -
  let ?wd = "snd (the (gather_de ex_remote_cut 3 ex_world))"
  let ?wi = "snd (the (gather_in ex_remote_cut 3 ex_world))"
  let ?w3 = "ex_world\<lparr>calls := calls ex_world
                        @ [(QueryDatabase (if truthy (JStr ''next'') then Some (JStr ''next'') else None),
                            Response 500 (Some (JObj [(''object'', JStr ''error'')])))],
                      console := console ex_world
                        @ [ApiError 500, Printed (JObj [(''object'', JStr ''error'')])]\<rparr>"
  have gd: "gather_de ex_remote_cut 3 ex_world = Some (Inr (Some [ex_row]), ?wd)"
    by code_simp
  have gi: "gather_in ex_remote_cut 3 ex_world = Some (Inr (Some [ex_row]), ?wi)"
    by code_simp
  have q: "ex_remote_cut (calls ex_world)
             (QueryDatabase (if truthy (JStr ''next'') then Some (JStr ''next'') else None))
             = Response 500 (Some (JObj [(''object'', JStr ''error'')])) \<and> (500::int) \<noteq> 200"
    by simp
  note td = run_without_raise_reaches_export
              [where env = ex_remote_cut and fuel = 3 and w = ex_world and x = "Some [ex_row]"
                 and ?w1.0 = ?wd]
  note ti = run_without_raise_reaches_export
              [where env = ex_remote_cut and fuel = 3 and w = ex_world and x = "Some [ex_row]"
                 and ?w1.0 = ?wi]
  note tl = run_without_raise_reaches_export
              [where env = ex_remote_cut and ?w2.0 = ex_world and cursor = "JStr ''next''"
                 and code = 500 and body = "JObj [(''object'', JStr ''error'')]"
                 and proc = "extract_card_info_de ex_remote_cut" and n = "Suc 0" and acc = "[ex_row]"
                 and rows = "[ex_row]" and ?w3.0 = ?w3 and r = "(Inr [ex_row], ?w3)" and k = 4]
  from td gd have md: "main_de ex_remote_cut 3 ex_world = Some (export_de [ex_row] ?wd)"
    by blast
  from ti gi have mi: "main_in ex_remote_cut 3 ex_world = Some (export_in [ex_row] ?wi)"
    by blast
  from tl q have l1:
    "pagination_loop (extract_card_info_de ex_remote_cut) ex_remote_cut (Suc (Suc 0))
       (JStr ''next'') [ex_row] ex_world = Some (Inr [ex_row], ?w3)"
    by blast
  from tl have l2:
    "pagination_loop (extract_card_info_de ex_remote_cut) ex_remote_cut (Suc 0)
       (JStr ''next'') [ex_row] ex_world = Some (Inr [ex_row], ?w3)
     \<longrightarrow> prefix [ex_row] [ex_row]
       \<and> pagination_loop (extract_card_info_de ex_remote_cut) ex_remote_cut (Suc 0 + 4)
          (JStr ''next'') [ex_row] ex_world = Some (Inr [ex_row], ?w3)"
    by blast
  have l0:
    "pagination_loop (extract_card_info_de ex_remote_cut) ex_remote_cut (Suc 0)
       (JStr ''next'') [ex_row] ex_world = Some (Inr [ex_row], ?w3)"
    by code_simp
  from l2 l0 have l3: "prefix [ex_row] [ex_row]
       \<and> pagination_loop (extract_card_info_de ex_remote_cut) ex_remote_cut (Suc 0 + 4)
          (JStr ''next'') [ex_row] ex_world = Some (Inr [ex_row], ?w3)"
    by blast
  from gd gi md mi l3 show ?thesis
    by (simp add: export_de_def export_in_def)
qed

text \<open>
  A failed page fetch whose body is no JSON raises in \<^verbatim>\<open>print(response.json())\<close>: the
  initial listing has succeeded and the first page has been processed, yet the run ends
  with the exception and without its export.
\<close>

theorem unparseable_failure_aborts_the_run:
  "fst (get_database_items ex_remote_outage JNull ex_world)
     = Inr (ex_page [ex_entry ex_id []] True)
   \<and> map_option (\<lambda>p. (fst p, csv_file (snd p), bar_n (snd p)))
        (main_de ex_remote_outage 3 ex_world) = Some (Inl JSONDecodeError, None, 1)
   \<and> map_option (\<lambda>p. (fst p, csv_file (snd p), bar_n (snd p)))
        (main_in ex_remote_outage 3 ex_world) = Some (Inl JSONDecodeError, None, 1)"
  by code_simp

end
